theory Spec2Isabelle
  imports Complex_Main "HOL-Library.Word" "HOL-Library.Signed_Division" "HOL-Library.Sublist"
begin

section \<open>Library boundary: exceptions, JSON values, MsgPack objects\<close>

text \<open>
  The server is written against three libraries that are not part of the repository:
  nlohmann::json, msgpack-c and binaryrpc. Their values are modelled as datatypes; every
  exception they raise is a value of \<open>exn\<close> and every call that can raise returns
  \<open>exn + 'a\<close> (\<open>Inl\<close> is the raised exception). All exceptions below derive from
  \<open>std::exception\<close>, which is what the handlers' \<open>catch\<close> clauses name.
  A C++ \<open>double\<close> is modelled by the real number it denotes: the handlers embedded here
  pass doubles on without computing with them, and NaN and infinities are outside the model.
  Strings are byte strings. The domain types are those of \<open>domain/types.hpp\<close>.
\<close>

datatype exn =
    json_type_error nat
  | std_invalid_argument
  | std_out_of_range
  | msgpack_unpack_error
  | msgpack_type_error
  | std_runtime_error string

datatype json =
    JNull
  | JBool bool
  | JInt int
  | JFloat real
  | JString string
  | JArray "json list"
  | JObject "(string \<times> json) list"

text \<open>The object kinds of msgpack-c (\<open>msgpack::type::STR\<close> and so on; the prefix
  \<open>T_\<close> keeps them apart from HOL's own syntax).\<close>

datatype msgpack_object =
    T_NIL
  | T_BOOLEAN bool
  | T_POSITIVE_INTEGER nat
  | T_NEGATIVE_INTEGER int
  | T_FLOAT real
  | T_STR string
  | T_BIN "8 word list"
  | T_ARRAY "msgpack_object list"
  | T_MAP "(msgpack_object \<times> msgpack_object) list"
  | T_EXT int "8 word list"

text \<open>\<open>std::map::operator[]\<close> assignment on the object representation: the last value
  written under a key is the one kept.\<close>

fun obj_set :: "string \<Rightarrow> json \<Rightarrow> (string \<times> json) list \<Rightarrow> (string \<times> json) list" where
  "obj_set k v [] = [(k, v)]"
| "obj_set k v ((k', v') # kvs) =
     (if k = k' then (k, v) # kvs else (k', v') # obj_set k v kvs)"

text \<open>The first exception raised by a left-to-right loop over already converted elements.\<close>

fun collect :: "(exn + 'a) list \<Rightarrow> exn + 'a list" where
  "collect [] = Inr []"
| "collect (Inl e # _) = Inl e"
| "collect (Inr x # xs) = (case collect xs of Inl e \<Rightarrow> Inl e | Inr ys \<Rightarrow> Inr (x # ys))"

text \<open>\<open>msgpack::object::convert(std::string&)\<close>: accepts STR and BIN, raises
  \<open>msgpack::type_error\<close> otherwise.\<close>

fun convert_string :: "msgpack_object \<Rightarrow> exn + string" where
  "convert_string (T_STR s) = Inr s"
| "convert_string (T_BIN bs) = Inr (map (\<lambda>b. char_of (unat b)) bs)"
| "convert_string _ = Inl msgpack_type_error"

text \<open>One map entry of the MAP loop: the key is converted first, then the (already
  converted) value is inspected.\<close>

definition convert_entry :: "msgpack_object \<times> (exn + json) \<Rightarrow> exn + (string \<times> json)" where
  "convert_entry kv =
     (case convert_string (fst kv) of
        Inl e \<Rightarrow> Inl e
      | Inr key \<Rightarrow> (case snd kv of Inl e \<Rightarrow> Inl e | Inr v \<Rightarrow> Inr (key, v)))"

text \<open>\<open>convertMsgPackToJson\<close> (utils/parser.hpp). A POSITIVE_INTEGER above
  \<open>INT64_MAX\<close> makes \<open>convert(int64_t&)\<close> raise; NIL, BIN and EXT take the
  \<open>default\<close> branch and become the empty object.\<close>

primrec convertMsgPackToJson :: "msgpack_object \<Rightarrow> exn + json" where
  "convertMsgPackToJson (T_STR s) = Inr (JString s)"
| "convertMsgPackToJson (T_POSITIVE_INTEGER n) =
     (if int n < 2 ^ 63 then Inr (JInt (int n)) else Inl msgpack_type_error)"
| "convertMsgPackToJson (T_NEGATIVE_INTEGER i) = Inr (JInt i)"
| "convertMsgPackToJson (T_FLOAT r) = Inr (JFloat r)"
| "convertMsgPackToJson (T_BOOLEAN b) = Inr (JBool b)"
| "convertMsgPackToJson (T_ARRAY xs) =
     (case collect (map convertMsgPackToJson xs) of
        Inl e \<Rightarrow> Inl e
      | Inr js \<Rightarrow> Inr (JArray js))"
| "convertMsgPackToJson (T_MAP kvs) =
     (case collect (map convert_entry (map (map_prod id convertMsgPackToJson) kvs)) of
        Inl e \<Rightarrow> Inl e
      | Inr es \<Rightarrow> Inr (JObject (foldl (\<lambda>m kv. obj_set (fst kv) (snd kv) m) [] es)))"
| "convertMsgPackToJson T_NIL = Inr (JObject [])"
| "convertMsgPackToJson (T_BIN bs) = Inr (JObject [])"
| "convertMsgPackToJson (T_EXT t bs) = Inr (JObject [])"

text \<open>\<open>parseMsgPackPayload\<close> (utils/parser.hpp). \<open>msgpack::unpack\<close> belongs to
  msgpack-c and is a parameter: it maps the request bytes to the decoded object or to the
  exception it raises. The \<open>catch (const std::exception&)\<close> turns every exception of the
  \<open>try\<close> body into the empty JSON object.\<close>

definition parseMsgPackPayload_try ::
  "(8 word list \<Rightarrow> exn + msgpack_object) \<Rightarrow> 8 word list \<Rightarrow> exn + json" where
  "parseMsgPackPayload_try unpack req =
     (case unpack req of Inl e \<Rightarrow> Inl e | Inr obj \<Rightarrow> convertMsgPackToJson obj)"

definition parseMsgPackPayload ::
  "(8 word list \<Rightarrow> exn + msgpack_object) \<Rightarrow> 8 word list \<Rightarrow> json" where
  "parseMsgPackPayload unpack req =
     (case parseMsgPackPayload_try unpack req of Inl e \<Rightarrow> JObject [] | Inr j \<Rightarrow> j)"

subsection \<open>nlohmann::json accessors used by the handlers\<close>

text \<open>\<open>basic_json::value(key, default)\<close>: type_error 306 when the value is not an
  object, the default when the key is absent, otherwise \<open>get<T>()\<close> of the member, which
  raises type_error 302 on a type mismatch.\<close>

fun find_key :: "json \<Rightarrow> string \<Rightarrow> exn + json option" where
  "find_key (JObject kvs) k = Inr (map_of kvs k)"
| "find_key _ k = Inl (json_type_error 306)"

fun get_string :: "json \<Rightarrow> exn + string" where
  "get_string (JString s) = Inr s"
| "get_string _ = Inl (json_type_error 302)"

fun get_double :: "json \<Rightarrow> exn + real" where
  "get_double (JInt n) = Inr (real_of_int n)"
| "get_double (JFloat r) = Inr r"
| "get_double _ = Inl (json_type_error 302)"

text \<open>\<open>static_cast\<close> of a double to an integer type truncates toward zero (the
  behaviour is undefined when the truncated value does not fit; the model returns the
  truncated value).\<close>

definition truncate_double :: "real \<Rightarrow> int" where
  "truncate_double r = (if 0 \<le> r then \<lfloor>r\<rfloor> else \<lceil>r\<rceil>)"

fun get_int32 :: "json \<Rightarrow> exn + int" where
  "get_int32 (JInt n) = Inr (signed_take_bit 31 n)"
| "get_int32 (JFloat r) = Inr (truncate_double r)"
| "get_int32 (JBool b) = Inr (if b then 1 else 0)"
| "get_int32 _ = Inl (json_type_error 302)"

definition value_with :: "(json \<Rightarrow> exn + 'a) \<Rightarrow> json \<Rightarrow> string \<Rightarrow> 'a \<Rightarrow> exn + 'a" where
  "value_with get j k d =
     (case find_key j k of
        Inl e \<Rightarrow> Inl e
      | Inr None \<Rightarrow> Inr d
      | Inr (Some v) \<Rightarrow> get v)"

abbreviation value_string :: "json \<Rightarrow> string \<Rightarrow> string \<Rightarrow> exn + string" where
  "value_string \<equiv> value_with get_string"

abbreviation value_double :: "json \<Rightarrow> string \<Rightarrow> real \<Rightarrow> exn + real" where
  "value_double \<equiv> value_with get_double"

abbreviation value_int32 :: "json \<Rightarrow> string \<Rightarrow> int \<Rightarrow> exn + int" where
  "value_int32 \<equiv> value_with get_int32"

text \<open>\<open>createErrorResponse\<close>.\<close>

definition createErrorResponse :: "string \<Rightarrow> string \<Rightarrow> json" where
  "createErrorResponse code message =
     JObject [(''error'', JObject [(''code'', JString code), (''message'', JString message)])]"

subsection \<open>Printing a JSON value\<close>

text \<open>\<open>basic_json::dump()\<close>, with its default arguments, decodes every string it prints (the
  member names and the string values) as UTF-8 and raises type_error 316 on a byte that cannot
  continue a well-formed sequence, and at the end of a string that stops inside one. The
  decoder is a state machine over the bytes; its accepted language is the well-formed UTF-8 of
  the Unicode standard: no overlong form, no surrogate, nothing above U+10FFFF.\<close>

datatype utf8_state =
    Utf8Accept | Utf8Reject
  | Tail1 | Tail2 | Tail3
  | AfterE0 | AfterED | AfterF0 | AfterF4

fun utf8_step :: "utf8_state \<Rightarrow> nat \<Rightarrow> utf8_state" where
  "utf8_step Utf8Accept b =
     (if b < 0x80 then Utf8Accept
      else if 0xC2 \<le> b \<and> b \<le> 0xDF then Tail1
      else if b = 0xE0 then AfterE0
      else if (0xE1 \<le> b \<and> b \<le> 0xEC) \<or> b = 0xEE \<or> b = 0xEF then Tail2
      else if b = 0xED then AfterED
      else if b = 0xF0 then AfterF0
      else if 0xF1 \<le> b \<and> b \<le> 0xF3 then Tail3
      else if b = 0xF4 then AfterF4
      else Utf8Reject)"
| "utf8_step Tail1 b = (if 0x80 \<le> b \<and> b \<le> 0xBF then Utf8Accept else Utf8Reject)"
| "utf8_step Tail2 b = (if 0x80 \<le> b \<and> b \<le> 0xBF then Tail1 else Utf8Reject)"
| "utf8_step Tail3 b = (if 0x80 \<le> b \<and> b \<le> 0xBF then Tail2 else Utf8Reject)"
| "utf8_step AfterE0 b = (if 0xA0 \<le> b \<and> b \<le> 0xBF then Tail1 else Utf8Reject)"
| "utf8_step AfterED b = (if 0x80 \<le> b \<and> b \<le> 0x9F then Tail1 else Utf8Reject)"
| "utf8_step AfterF0 b = (if 0x90 \<le> b \<and> b \<le> 0xBF then Tail2 else Utf8Reject)"
| "utf8_step AfterF4 b = (if 0x80 \<le> b \<and> b \<le> 0x8F then Tail2 else Utf8Reject)"
| "utf8_step Utf8Reject b = Utf8Reject"

definition utf8 :: "string \<Rightarrow> bool" where
  "utf8 s = (foldl utf8_step Utf8Accept (map of_char s) = Utf8Accept)"

text \<open>The values \<open>dump()\<close> prints without raising.\<close>

primrec printable :: "json \<Rightarrow> bool" where
  "printable JNull = True"
| "printable (JBool b) = True"
| "printable (JInt n) = True"
| "printable (JFloat r) = True"
| "printable (JString s) = utf8 s"
| "printable (JArray xs) = list_all id (map printable xs)"
| "printable (JObject kvs) =
     list_all (\<lambda>kv. utf8 (fst kv) \<and> snd kv) (map (map_prod id printable) kvs)"

text \<open>\<open>dump()\<close>: the exception, or the printed text. The text is not spelled out: it is
  represented by the value it prints.\<close>

definition dump :: "json \<Rightarrow> exn + json" where
  "dump j = (if printable j then Inr j else Inl (json_type_error 316))"

text \<open>What a handler hands to \<open>context.reply\<close>: the JSON body (sent as its
  \<open>dump()\<close>), and the method name given to \<open>getProtocol()->serialize\<close>, or
  \<open>None\<close> where the handler replies with the raw JSON bytes. The exceptions that reach
  the outermost \<open>catch\<close> of a handler are type_errors of nlohmann::json, whose message
  (\<open>what\<close>) is ASCII text, so that the \<open>dump()\<close> of the reply built there does not
  raise a second time; nor does that of an error reply with a fixed text.\<close>

record Reply =
  serializedAs :: "string option"
  body :: json

definition serialized :: "string \<Rightarrow> json \<Rightarrow> Reply" where
  "serialized m j = \<lparr>serializedAs = Some m, body = j\<rparr>"

definition raw :: "json \<Rightarrow> Reply" where
  "raw j = \<lparr>serializedAs = None, body = j\<rparr>"


section \<open>history.query\<close>

text \<open>\<open>Interval\<close>, \<open>Candle\<close> and \<open>HistoryQuery\<close> of \<open>domain/types.hpp\<close>. The
  fields \<open>open\<close> and \<open>close\<close> of \<open>Candle\<close> are named \<open>openPrice\<close> and
  \<open>closePrice\<close> here; \<open>volume\<close> is a \<open>uint64_t\<close>.\<close>

datatype Interval = S1 | S5 | S15 | M1 | M5 | M15 | H1 | D1

record Candle =
  openTime :: int
  openPrice :: real
  high :: real
  low :: real
  closePrice :: real
  volume :: nat
  interval :: Interval

record HistoryQuery =
  fromTs :: int
  toTs :: int
  interval :: Interval
  limit :: int

text \<open>An exception-aware sequencing of two steps of a \<open>try\<close> block.\<close>

definition try_bind :: "exn + 'a \<Rightarrow> ('a \<Rightarrow> exn + 'b) \<Rightarrow> exn + 'b" where
  "try_bind m f = (case m of Inl e \<Rightarrow> Inl e | Inr x \<Rightarrow> f x)"

text \<open>The \<open>is_number_integer\<close> / \<open>is_number_float\<close> / else chain applied to
  \<open>request["fromTs"]\<close> and \<open>request["toTs"]\<close>. It runs after
  \<open>request.value("symbol", "")\<close> has succeeded, so \<open>request\<close> is an object and
  \<open>operator[]\<close> yields the member or null.\<close>

definition timestampMs :: "json \<Rightarrow> string \<Rightarrow> int" where
  "timestampMs request key =
     (case find_key request key of
        Inr (Some (JInt n)) \<Rightarrow> n
      | Inr (Some (JFloat r)) \<Rightarrow> truncate_double r
      | _ \<Rightarrow> 0)"

definition intervalEnum :: "string \<Rightarrow> Interval" where
  "intervalEnum s =
     (if s = ''S1'' then S1 else if s = ''S5'' then S5 else if s = ''S15'' then S15
      else if s = ''M1'' then M1 else if s = ''M5'' then M5 else if s = ''M15'' then M15
      else if s = ''H1'' then H1 else if s = ''D1'' then D1 else M1)"

definition candleJson :: "string \<Rightarrow> Candle \<Rightarrow> json" where
  "candleJson ivl c =
     JObject [(''openTime'', JInt (openTime c)), (''open'', JFloat (openPrice c)),
              (''high'', JFloat (high c)), (''low'', JFloat (low c)),
              (''close'', JFloat (closePrice c)), (''volume'', JInt (int (volume c))),
              (''interval'', JString ivl)]"

text \<open>The outcome of one \<open>history.query\<close>: the reply, and the arguments of the call to
  \<open>historyRepository_->fetch\<close> when the handler made one.\<close>

record HistoryQueryResult =
  reply :: Reply
  fetchCall :: "(string \<times> HistoryQuery) option"

type_synonym HistoryRepository = "string \<Rightarrow> HistoryQuery \<Rightarrow> exn + Candle list"

text \<open>The outer \<open>catch\<close> of \<open>handleHistoryQuery\<close>, and the sending of a reply whose
  \<open>dump()\<close> is made inside the outer \<open>try\<close>.\<close>

definition historyQueryCatch :: "(exn \<Rightarrow> string) \<Rightarrow> exn \<Rightarrow> Reply" where
  "historyQueryCatch what e =
     serialized ''history.query''
       (createErrorResponse ''INTERNAL_ERROR'' (''History query failed: '' @ what e))"

definition historyQueryReply :: "(exn \<Rightarrow> string) \<Rightarrow> json \<Rightarrow> Reply" where
  "historyQueryReply what j =
     (case dump j of
        Inl e \<Rightarrow> historyQueryCatch what e
      | Inr printed \<Rightarrow> serialized ''history.query'' printed)"

text \<open>The part of \<open>handleHistoryQuery\<close> after the request fields have been read:
  conversion to seconds with C++ integer division (truncation toward zero, \<open>sdiv\<close>),
  the parameter check, the repository check and the fetch. The \<open>QUERY_FAILED\<close> reply
  carries the repository's own message, and the data reply the request's strings.\<close>

definition historyQueryChecked ::
  "(exn \<Rightarrow> string) \<Rightarrow> HistoryRepository option \<Rightarrow> string \<Rightarrow> int \<Rightarrow> int \<Rightarrow> string \<Rightarrow> int
     \<Rightarrow> HistoryQueryResult" where
  "historyQueryChecked what historyRepository symbol fromTsMs toTsMs ivl lmt =
     (let fromTs = fromTsMs sdiv 1000; toTs = toTsMs sdiv 1000 in
      if symbol = [] \<or> fromTs = 0 \<or> toTs = 0 then
        \<lparr>reply = raw (createErrorResponse ''INVALID_PARAMS''
                   ''Missing required parameters: symbol, fromTs, toTs''),
         fetchCall = None\<rparr>
      else (case historyRepository of
        None \<Rightarrow>
          \<lparr>reply = serialized ''history.query''
                   (createErrorResponse ''SERVICE_UNAVAILABLE''
                      ''ClickHouse repository not initialized''),
           fetchCall = None\<rparr>
      | Some fetch \<Rightarrow>
          (let queryObj = \<lparr>fromTs = fromTs, toTs = toTs, interval = intervalEnum ivl,
                            limit = lmt\<rparr> in
           case fetch symbol queryObj of
             Inl e \<Rightarrow>
               \<lparr>reply = historyQueryReply what
                        (createErrorResponse ''QUERY_FAILED''
                           (''Failed to fetch historical data: '' @ what e)),
                fetchCall = Some (symbol, queryObj)\<rparr>
           | Inr realCandles \<Rightarrow>
               \<lparr>reply = historyQueryReply what
                        (JObject [(''symbol'', JString symbol),
                                  (''candles'', JArray (map (candleJson ivl) realCandles)),
                                  (''count'', JInt (int (length realCandles))),
                                  (''fromTs'', JInt fromTs), (''toTs'', JInt toTs),
                                  (''interval'', JString ivl)]),
                fetchCall = Some (symbol, queryObj)\<rparr>)))"

text \<open>The request fields in the order the handler reads them; any \<open>type_error\<close> leaves
  the \<open>try\<close> block before the parameter check.\<close>

definition historyQueryFields :: "json \<Rightarrow> exn + (string \<times> int \<times> int \<times> string \<times> int)" where
  "historyQueryFields request =
     try_bind (value_string request ''symbol'' []) (\<lambda>symbol.
     try_bind (value_string request ''interval'' ''M1'') (\<lambda>ivl.
     try_bind (value_int32 request ''limit'' 1000) (\<lambda>lmt.
       Inr (symbol, timestampMs request ''fromTs'', timestampMs request ''toTs'', ivl, lmt))))"

text \<open>\<open>AdvancedTradingServer::handleHistoryQuery\<close>, on the JSON value returned by
  \<open>parseMsgPackPayload(data)\<close>. \<open>what\<close> is \<open>std::exception::what\<close>.\<close>

definition handleHistoryQuery ::
  "(exn \<Rightarrow> string) \<Rightarrow> HistoryRepository option \<Rightarrow> json \<Rightarrow> HistoryQueryResult" where
  "handleHistoryQuery what historyRepository request =
     (case historyQueryFields request of
        Inl e \<Rightarrow> \<lparr>reply = historyQueryCatch what e, fetchCall = None\<rparr>
      | Inr (symbol, fromTsMs, toTsMs, ivl, lmt) \<Rightarrow>
          historyQueryChecked what historyRepository symbol fromTsMs toTsMs ivl lmt)"

text \<open>The reply the claim speaks of: an error object whose code is \<open>INVALID_PARAMS\<close>.\<close>

definition errorCode :: "json \<Rightarrow> string option" where
  "errorCode j =
     (case find_key j ''error'' of
        Inr (Some e) \<Rightarrow> (case find_key e ''code'' of Inr (Some (JString c)) \<Rightarrow> Some c | _ \<Rightarrow> None)
      | _ \<Rightarrow> None)"


section \<open>Decimal and hexadecimal conversions of the C++ standard library\<close>

definition digit_char :: "nat \<Rightarrow> char" where
  "digit_char d = char_of (48 + d)"

text \<open>\<open>std::to_string\<close> on an integer: the decimal digits, with a leading minus sign for
  a negative value.\<close>

function to_digits :: "nat \<Rightarrow> string" where
  "to_digits n =
     (if n < 10 then [digit_char n] else to_digits (n div 10) @ [digit_char (n mod 10)])"
  by pat_completeness auto
termination
  by (relation "measure id") auto

declare to_digits.simps [simp del]

definition to_string :: "int \<Rightarrow> string" where
  "to_string i = (if i < 0 then CHR ''-'' # to_digits (nat (- i)) else to_digits (nat i))"

text \<open>\<open>strtol\<close>/\<open>strtoll\<close>, on which \<open>std::stoi\<close> and \<open>std::stoll\<close> rest: leading
  white space is skipped, one sign is accepted, for base 16 a \<open>0x\<close> prefix is accepted
  when a hexadecimal digit follows it, and the longest run of digits of the base is
  converted. \<open>None\<close> is "no conversion could be performed".\<close>

definition isspace :: "char \<Rightarrow> bool" where
  "isspace c = (let n = (of_char c :: nat) in n = 32 \<or> (9 \<le> n \<and> n \<le> 13))"

definition digit_value :: "nat \<Rightarrow> char \<Rightarrow> nat option" where
  "digit_value base c =
     (let n = (of_char c :: nat);
          v = (if 48 \<le> n \<and> n \<le> 57 then Some (n - 48)
               else if 97 \<le> n \<and> n \<le> 122 then Some (n - 87)
               else if 65 \<le> n \<and> n \<le> 90 then Some (n - 55)
               else None)
      in case v of None \<Rightarrow> None | Some d \<Rightarrow> if d < base then Some d else None)"

definition is_digit :: "nat \<Rightarrow> char \<Rightarrow> bool" where
  "is_digit base c = (digit_value base c \<noteq> None)"

definition digits_to_nat :: "nat \<Rightarrow> string \<Rightarrow> nat" where
  "digits_to_nat base ds =
     foldl (\<lambda>acc c. acc * base + (case digit_value base c of Some d \<Rightarrow> d | None \<Rightarrow> 0)) 0 ds"

definition has_hex_prefix :: "string \<Rightarrow> bool" where
  "has_hex_prefix s =
     (case s of
        a # b # c # _ \<Rightarrow> a = CHR ''0'' \<and> (b = CHR ''x'' \<or> b = CHR ''X'') \<and> is_digit 16 c
      | _ \<Rightarrow> False)"

definition strtol :: "nat \<Rightarrow> string \<Rightarrow> int option" where
  "strtol base s =
     (let s1 = dropWhile isspace s;
          neg = (case s1 of c # _ \<Rightarrow> c = CHR ''-'' | [] \<Rightarrow> False);
          s2 = (case s1 of c # r \<Rightarrow> if c = CHR ''-'' \<or> c = CHR ''+'' then r else s1 | [] \<Rightarrow> []);
          s3 = (if base = 16 \<and> has_hex_prefix s2 then drop 2 s2 else s2);
          ds = takeWhile (is_digit base) s3
      in if ds = [] then None
         else Some (if neg then - int (digits_to_nat base ds) else int (digits_to_nat base ds)))"

text \<open>\<open>std::stoll(str)\<close> and \<open>std::stoi(str, nullptr, base)\<close>: \<open>std::invalid_argument\<close>
  when nothing converts, \<open>std::out_of_range\<close> when the value does not fit.\<close>

definition stoll :: "string \<Rightarrow> exn + int" where
  "stoll s =
     (case strtol 10 s of
        None \<Rightarrow> Inl std_invalid_argument
      | Some v \<Rightarrow> if - (2 ^ 63) \<le> v \<and> v < 2 ^ 63 then Inr v else Inl std_out_of_range)"

definition stoi :: "nat \<Rightarrow> string \<Rightarrow> exn + int" where
  "stoi base s =
     (case strtol base s of
        None \<Rightarrow> Inl std_invalid_argument
      | Some v \<Rightarrow> if - (2 ^ 31) \<le> v \<and> v < 2 ^ 31 then Inr v else Inl std_out_of_range)"

section \<open>Session store\<close>

text \<open>
  Modelled from the spec: the session store (binaryrpc's \<open>SessionManager\<close>) is not in the
  repository. Spec 4.2: \<open>setField(id, key, value, persistAcrossReconnect?)\<close>,
  \<open>getField<T>(id, key) -> optional<T>\<close>; fields have value semantics; a field set with
  \<open>persistAcrossReconnect=false\<close> is cleared when the session is resumed from a
  disconnected state. A field holds a typed value; \<open>getField<T>\<close> yields nothing when the
  key is absent or holds a value of another type. Handlers run on an existing session, for
  which \<open>setField\<close> succeeds.
\<close>

datatype FieldValue = StringField string | StringListField "string list"

record Field =
  fieldValue :: FieldValue
  persistAcrossReconnect :: bool

type_synonym SessionFields = "string \<rightharpoonup> Field"

type_synonym SessionStore = "string \<Rightarrow> SessionFields"

definition setField :: "SessionStore \<Rightarrow> string \<Rightarrow> string \<Rightarrow> FieldValue \<Rightarrow> bool \<Rightarrow> SessionStore" where
  "setField sm sid key v persist =
     sm(sid := (sm sid)(key \<mapsto> \<lparr>fieldValue = v, persistAcrossReconnect = persist\<rparr>))"

definition getField_string :: "SessionStore \<Rightarrow> string \<Rightarrow> string \<Rightarrow> string option" where
  "getField_string sm sid key =
     (case sm sid key of
        Some f \<Rightarrow> (case fieldValue f of StringField s \<Rightarrow> Some s | _ \<Rightarrow> None)
      | None \<Rightarrow> None)"


definition resumeFields :: "SessionFields \<Rightarrow> SessionFields" where
  "resumeFields fs =
     (\<lambda>key. case fs key of
               Some f \<Rightarrow> if persistAcrossReconnect f then Some f else None
             | None \<Rightarrow> None)"

definition resume :: "SessionStore \<Rightarrow> string \<Rightarrow> SessionStore" where
  "resume sm sid = sm(sid := resumeFields (sm sid))"

section \<open>Idempotency cache\<close>

text \<open>\<open>OrderStatus\<close> and \<open>OrderResult\<close> of \<open>domain/types.hpp\<close>;
  \<open>statusCode\<close> is \<open>static_cast<int>(status)\<close>, the position of the enumerator.\<close>

datatype OrderStatus = NEW | ACK | PARTIALLY_FILLED | FILLED | REJECTED | CANCELED

definition statusCode :: "OrderStatus \<Rightarrow> int" where
  "statusCode s =
     (case s of NEW \<Rightarrow> 0 | ACK \<Rightarrow> 1 | PARTIALLY_FILLED \<Rightarrow> 2 | FILLED \<Rightarrow> 3
              | REJECTED \<Rightarrow> 4 | CANCELED \<Rightarrow> 5)"

record OrderResult =
  status :: OrderStatus
  orderId :: string
  echoKey :: string
  reason :: string

record CacheEntry =
  result :: OrderResult
  expiresAt :: int

type_synonym IdempotencyCache = "string \<rightharpoonup> CacheEntry"

text \<open>\<open>CacheEntry::isExpired\<close>, \<open>IdempotencyCache::get\<close> and \<open>IdempotencyCache::put\<close>
  (infrastructure/cache). \<open>now\<close> is the reading of \<open>steady_clock\<close> in milliseconds that
  the call takes; \<open>get\<close> returns the looked-up result together with the map after the
  erasure of an expired entry.\<close>

definition isExpired :: "int \<Rightarrow> CacheEntry \<Rightarrow> bool" where
  "isExpired now e = (now > expiresAt e)"

definition cache_get :: "int \<Rightarrow> IdempotencyCache \<Rightarrow> string \<Rightarrow> OrderResult option \<times> IdempotencyCache" where
  "cache_get now cache key =
     (case cache key of
        None \<Rightarrow> (None, cache)
      | Some e \<Rightarrow> if isExpired now e then (None, cache(key := None)) else (Some (result e), cache))"

definition cache_put :: "int \<Rightarrow> IdempotencyCache \<Rightarrow> string \<Rightarrow> OrderResult \<Rightarrow> int \<Rightarrow> IdempotencyCache" where
  "cache_put now cache key res ttlMs = cache(key \<mapsto> \<lparr>result = res, expiresAt = now + ttlMs\<rparr>)"


section \<open>orders.place and orders.status\<close>

datatype Side = BUY | SELL

datatype OrderType = MARKET | LIMIT

text \<open>\<open>Order\<close>, \<open>Account\<close> and \<open>Position\<close> of \<open>domain/types.hpp\<close>, with their
  fields in declaration order: \<open>Order(orderId, idempotencyKey, type, side, qty, price,
  status, createdAt)\<close>, \<open>Account(accountId, ownerUserId, baseCurrency, balance)\<close> and
  \<open>Position(symbol, qty, avgPrice)\<close>. The six-argument constructor of \<open>Order\<close> that
  the handler calls sets \<open>status\<close> to \<open>NEW\<close> and \<open>createdAt\<close> to the reading of
  \<open>system_clock\<close> in milliseconds.\<close>

datatype Order = Order string string OrderType Side real real OrderStatus int

datatype Account = Account string string string real

datatype Position = Position string real real

text \<open>\<open>IRiskValidator\<close> (domain/interfaces.hpp), the collaborator behind
  \<open>riskValidator_\<close>: \<open>validate\<close> returns its verdict and leaves the validator in a new
  state, from which \<open>getValidationError\<close> reads the error text. \<open>'v\<close> is the
  validator's own state.\<close>

record 'v IRiskValidator =
  validate :: "'v \<Rightarrow> Account \<Rightarrow> Position list \<Rightarrow> Order \<Rightarrow> bool \<times> 'v"
  getValidationError :: "'v \<Rightarrow> string"

text \<open>What the handlers take from outside the repository: \<open>std::exception::what\<close>, the
  message text of a library exception.\<close>

record Env =
  what :: "exn \<Rightarrow> string"

text \<open>The clock readings of one run of \<open>handleOrdersPlace\<close>, in milliseconds:
  \<open>system_clock\<close> at the rate-limit check, at the \<open>rateLimit_orders.place\<close> stamp, at
  the construction of the order id and inside the constructor of \<open>Order\<close>;
  \<open>steady_clock\<close> inside \<open>IdempotencyCache::get\<close> and inside
  \<open>IdempotencyCache::put\<close>.\<close>

record Clock =
  tRate :: int
  tStamp :: int
  tOrder :: int
  tCreated :: int
  tGet :: int
  tPut :: int

text \<open>The server state the order handlers touch. \<open>validateCalls\<close> and \<open>cacheGets\<close>
  are instrumentation: the orders handed to \<open>riskValidator_->validate\<close> and the keys
  handed to \<open>idempotencyCache_->get\<close>, in call order.\<close>

record 'v Server =
  sessionManager :: SessionStore
  idempotencyCache :: IdempotencyCache
  riskValidator :: 'v
  totalOrdersPlaced :: nat
  totalErrors :: nat
  validateCalls :: "Order list"
  cacheGets :: "string list"

text \<open>\<open>getSessionData\<close>: the values it returns do not come from the session store.\<close>

definition getSessionData :: "SessionStore \<Rightarrow> string \<Rightarrow> string \<Rightarrow> string option" where
  "getSessionData sm sid key =
     (if key = ''subscribedRooms'' then None
      else if key = ''userId'' then Some ''demo-user''
      else if key = ''authenticated'' then Some ''true''
      else if prefix ''rateLimit_'' key then None
      else None)"

definition getAccountForSession :: "SessionStore \<Rightarrow> string \<Rightarrow> Account" where
  "getAccountForSession sm sid =
     (let userIdStr = (case getSessionData sm sid ''userId'' of Some u \<Rightarrow> u | None \<Rightarrow> ''demo-user'')
      in Account (''ACC_'' @ userIdStr) userIdStr ''USD'' 100000)"

definition getPositionsForAccount :: "Account \<Rightarrow> Position list" where
  "getPositionsForAccount account = []"

text \<open>The request fields with their defaults, read in source order.\<close>

record PlaceFields =
  idempotencyKey :: string
  symbol :: string
  side :: string
  type :: string
  qty :: real
  price :: real

definition placeFields :: "json \<Rightarrow> exn + PlaceFields" where
  "placeFields request =
     try_bind (value_string request ''idempotencyKey'' ''DEFAULT_KEY'') (\<lambda>k.
     try_bind (value_string request ''symbol'' ''BTC-USD'') (\<lambda>sy.
     try_bind (value_string request ''side'' ''BUY'') (\<lambda>sd.
     try_bind (value_string request ''type'' ''LIMIT'') (\<lambda>ty.
     try_bind (value_double request ''qty'' 1) (\<lambda>q.
     try_bind (value_double request ''price'' 50000) (\<lambda>pr.
       Inr \<lparr>idempotencyKey = k, symbol = sy, side = sd, type = ty, qty = q, price = pr\<rparr>))))))"

text \<open>The response object of the three replying branches (they differ in \<open>qos\<close>).\<close>

definition orderResponse :: "OrderResult \<Rightarrow> string \<Rightarrow> string \<Rightarrow> PlaceFields \<Rightarrow> json" where
  "orderResponse res qos sid f =
     JObject [(''status'', JInt (statusCode (status res))),
              (''orderId'', JString (orderId res)),
              (''echoKey'', JString (echoKey res)),
              (''reason'', JString (reason res)),
              (''qos'', JString qos),
              (''sessionId'', JString sid),
              (''symbol'', JString (symbol f)),
              (''side'', JString (side f)),
              (''type'', JString (type f)),
              (''price'', JFloat (price f)),
              (''quantity'', JFloat (qty f)),
              (''idempotencyKey'', JString (idempotencyKey f))]"

text \<open>The rate-limit check: the session field \<open>lastOrderTime\<close> is read as a string and
  parsed with \<open>std::stoll\<close>; an unparsable value is ignored (\<open>catch (...)\<close>).\<close>

definition rateLimited :: "SessionStore \<Rightarrow> string \<Rightarrow> int \<Rightarrow> bool" where
  "rateLimited sm sid currentTime =
     (case getField_string sm sid ''lastOrderTime'' of
        None \<Rightarrow> False
      | Some lastOrderTimeStr \<Rightarrow>
          (case stoll lastOrderTimeStr of
             Inl e \<Rightarrow> False
           | Inr lastOrderTime \<Rightarrow> currentTime - lastOrderTime < 1000))"

text \<open>The session writes of a request that passed the rate-limit check: the new
  \<open>lastOrderTime\<close>, then the three \<open>setField\<close> calls of the FrameworkAPI block.\<close>

definition stampSession :: "SessionStore \<Rightarrow> string \<Rightarrow> Clock \<Rightarrow> SessionStore" where
  "stampSession sm sid clk =
     (let sm1 = setField sm sid ''lastOrderTime'' (StringField (to_string (tRate clk))) False;
          sm2 = setField sm1 sid ''userId'' (StringField ''test-user'') True;
          sm3 = setField sm2 sid ''userId2'' (StringField ''test-user2'') False
      in setField sm3 sid ''rateLimit_orders.place'' (StringField (to_string (tStamp clk))) False)"

text \<open>The outer \<open>catch\<close> of \<open>handleOrdersPlace\<close>: the error counter, and the
  \<open>INTERNAL_ERROR\<close> reply.\<close>

definition ordersPlaceCatch :: "Env \<Rightarrow> exn \<Rightarrow> 'v Server \<Rightarrow> 'v Server \<times> Reply" where
  "ordersPlaceCatch env e st =
     (st\<lparr>totalErrors := totalErrors st + 1\<rparr>,
      serialized ''orders.place''
        (createErrorResponse ''INTERNAL_ERROR'' (''Order placement failed: '' @ what env e)))"

text \<open>The sending of a response whose \<open>dump()\<close> is made directly inside the outer
  \<open>try\<close>: an exception of \<open>dump()\<close> reaches the outer \<open>catch\<close>.\<close>

definition sendOrderResponse :: "Env \<Rightarrow> json \<Rightarrow> 'v Server \<Rightarrow> 'v Server \<times> Reply" where
  "sendOrderResponse env response st =
     (case dump response of
        Inl e \<Rightarrow> ordersPlaceCatch env e st
      | Inr printed \<Rightarrow> (st, serialized ''orders.place'' printed))"

text \<open>The handler from "No cached result, creating new order" on. The three-argument
  \<open>OrderResult(status, orderId, key)\<close> leaves \<open>reason\<close> at its default, the empty string.
  The outcome is stored, and for an accepted order the session fields are written and the
  order counter is incremented, before the response is printed. The order log written to
  the history repository and the alert broadcast are outside the model; neither can fail
  the reply.\<close>

definition newOrder ::
  "Env \<Rightarrow> 'v IRiskValidator \<Rightarrow> Clock \<Rightarrow> string \<Rightarrow> PlaceFields \<Rightarrow> 'v Server \<Rightarrow> 'v Server \<times> Reply" where
  "newOrder env rv clk sid f st1 =
     (let key = idempotencyKey f;
          orderSide = (if side f = ''BUY'' then BUY else SELL);
          orderType = (if type f = ''MARKET'' then MARKET else LIMIT);
          oid = ''ORD_'' @ to_string (tOrder clk);
          order = Order oid key orderType orderSide (qty f) (price f) NEW (tCreated clk);
          account = getAccountForSession (sessionManager st1) sid;
          positions = getPositionsForAccount account;
          (ok, v) = validate rv (riskValidator st1) account positions order;
          st2 = st1\<lparr>riskValidator := v, validateCalls := validateCalls st1 @ [order]\<rparr>
      in if \<not> ok then
           (let res = \<lparr>status = REJECTED, orderId = oid, echoKey = key,
                        reason = getValidationError rv v\<rparr>;
                st3 = st2\<lparr>idempotencyCache :=
                            cache_put (tPut clk) (idempotencyCache st2) key res 300000\<rparr>
            in sendOrderResponse env (orderResponse res ''AtLeastOnce - risk rejected'' sid f) st3)
         else
           (let st' = (if orderType = MARKET then FILLED else ACK);
                res = \<lparr>status = st', orderId = oid, echoKey = key, reason = []\<rparr>;
                st3 = st2\<lparr>idempotencyCache :=
                            cache_put (tPut clk) (idempotencyCache st2) key res 300000\<rparr>;
                sm1 = setField (sessionManager st3) sid ''lastOrderId'' (StringField oid) False;
                sm2 = setField sm1 sid ''lastOrderStatus''
                        (StringField (to_string (statusCode st'))) False;
                st4 = st3\<lparr>sessionManager := sm2,
                          totalOrdersPlaced := totalOrdersPlaced st3 + 1\<rparr>
            in sendOrderResponse env
                 (orderResponse res ''AtLeastOnce - reliable delivery'' sid f) st4))"

text \<open>The handler from the idempotency lookup on. The reply built from a cached outcome
  is printed inside a \<open>try\<close> of its own, whose \<open>catch\<close> continues "without cached
  result": the request is then handled as a new order.\<close>

definition placeOrder ::
  "Env \<Rightarrow> 'v IRiskValidator \<Rightarrow> Clock \<Rightarrow> string \<Rightarrow> PlaceFields \<Rightarrow> 'v Server \<Rightarrow> 'v Server \<times> Reply" where
  "placeOrder env rv clk sid f st =
     (let key = idempotencyKey f;
          (cachedResult, cache1) = cache_get (tGet clk) (idempotencyCache st) key;
          st1 = st\<lparr>idempotencyCache := cache1, cacheGets := cacheGets st @ [key]\<rparr>
      in case cachedResult of
           Some res \<Rightarrow>
             (case dump (orderResponse res ''AtLeastOnce - cached result'' sid f) of
                Inr printed \<Rightarrow> (st1, serialized ''orders.place'' printed)
              | Inl e \<Rightarrow> newOrder env rv clk sid f st1)
         | None \<Rightarrow> newOrder env rv clk sid f st1)"

text \<open>\<open>AdvancedTradingServer::handleOrdersPlace\<close> on an initialised server
  (\<open>idempotencyCache_\<close> and \<open>riskValidator_\<close> set), for the session \<open>sid\<close> and the JSON
  value \<open>request\<close> that \<open>parseMsgPackPayload(data)\<close> returns. The rate-limit check
  precedes the parsing. The parsed request is printed to the log before its fields are
  read; a \<open>type_error\<close> raised by that \<open>dump()\<close> or while the fields are read reaches
  the outer \<open>catch\<close>.\<close>

definition handleOrdersPlace ::
  "Env \<Rightarrow> 'v IRiskValidator \<Rightarrow> Clock \<Rightarrow> string \<Rightarrow> json \<Rightarrow> 'v Server \<Rightarrow> 'v Server \<times> Reply" where
  "handleOrdersPlace env rv clk sid request st =
     (if rateLimited (sessionManager st) sid (tRate clk) then
        (st, serialized ''orders.place''
               (createErrorResponse ''RATE_LIMIT_EXCEEDED'' ''Too many requests''))
      else
        (let st1 = st\<lparr>sessionManager := stampSession (sessionManager st) sid clk\<rparr>
         in case try_bind (dump request) (\<lambda>printed. placeFields request) of
              Inl e \<Rightarrow> ordersPlaceCatch env e st1
            | Inr f \<Rightarrow> placeOrder env rv clk sid f st1))"

text \<open>\<open>AdvancedTradingServer::handleOrdersStatus\<close>. The response holds fixed texts and
  what \<open>getSessionData\<close> returns for the two keys, which is nothing, so that its
  \<open>dump()\<close> does not raise and the \<open>catch\<close> of the handler is not entered.\<close>

definition handleOrdersStatus :: "SessionStore \<Rightarrow> string \<Rightarrow> Reply" where
  "handleOrdersStatus sm sid =
     (let lastOrderId = getSessionData sm sid ''lastOrderId'';
          lastOrderStatus = getSessionData sm sid ''lastOrderStatus''
      in serialized ''orders.status''
           (JObject [(''lastOrderId'',
                        JString (case lastOrderId of Some v \<Rightarrow> v | None \<Rightarrow> ''none'')),
                     (''lastOrderStatus'',
                        JString (case lastOrderStatus of Some v \<Rightarrow> v | None \<Rightarrow> ''none'')),
                     (''message'', JString ''Order status retrieved from session state'')]))"

text \<open>A member of a reply body, for statements about single fields.\<close>

definition field :: "Reply \<Rightarrow> string \<Rightarrow> json option" where
  "field r k = (case find_key (body r) k of Inr v \<Rightarrow> v | Inl e \<Rightarrow> None)"




subsection \<open>Fixtures for the concrete examples\<close>

text \<open>An environment (\<open>what\<close> yields the empty text), a validator that performs the
  notional check of \<open>RiskValidator::validateOrderNotional\<close> and keeps its last error text
  as its state (on the reals, which is exact for the amounts of the examples), and a
  freshly started server without session fields or cached outcomes.\<close>

definition sampleEnv :: Env where
  "sampleEnv = \<lparr>what = (\<lambda>e. [])\<rparr>"

definition notionalValidator :: "string IRiskValidator" where
  "notionalValidator =
     \<lparr>validate = (\<lambda>lastError account positions order.
        case order of Order oid key ty sd q p st t \<Rightarrow>
          (let notional = (if ty = MARKET then q * p * 11 / 10 else q * p)
           in if notional > 100000
              then (False, ''Order notional limit exceeded. Max notional: $100000.000000'')
              else (True, []))),
      getValidationError = (\<lambda>lastError. lastError)\<rparr>"

definition freshServer :: "string Server" where
  "freshServer =
     \<lparr>sessionManager = (\<lambda>sid. Map.empty), idempotencyCache = Map.empty, riskValidator = [],
      totalOrdersPlaced = 0, totalErrors = 0, validateCalls = [], cacheGets = []\<rparr>"

definition clockAt :: "int \<Rightarrow> Clock" where
  "clockAt t = \<lparr>tRate = t, tStamp = t, tOrder = t, tCreated = t, tGet = t, tPut = t\<rparr>"

section \<open>Middleware and dispatch\<close>

text \<open>The handlers registered by \<open>setupHandlers\<close>, by method name, and the method list
  handed to \<open>useForMulti\<close> together with the authentication middleware in
  \<open>setupMiddleware\<close>.\<close>

datatype Handler =
    HandleHello | HandleLogout
  | HandleOrdersPlace | HandleOrdersCancel | HandleOrdersStatus | HandleOrdersHistory
  | HandleMarketDataSubscribe | HandleMarketDataUnsubscribe | HandleMarketDataList
  | HandleHistoryQuery | HandleHistoryLatest
  | HandleMetricsGet
  | HandleAlertsSubscribe | HandleAlertsList | HandleAlertsRegister | HandleAlertsDisable

definition registeredRPC :: "(string \<times> Handler) list" where
  "registeredRPC =
     [(''hello'', HandleHello), (''logout'', HandleLogout),
      (''orders.place'', HandleOrdersPlace), (''orders.cancel'', HandleOrdersCancel),
      (''orders.status'', HandleOrdersStatus), (''orders.history'', HandleOrdersHistory),
      (''market.subscribe'', HandleMarketDataSubscribe),
      (''market.unsubscribe'', HandleMarketDataUnsubscribe),
      (''market.list'', HandleMarketDataList),
      (''history.query'', HandleHistoryQuery), (''history.latest'', HandleHistoryLatest),
      (''metrics.get'', HandleMetricsGet),
      (''alerts.subscribe'', HandleAlertsSubscribe), (''alerts.list'', HandleAlertsList),
      (''alerts.register'', HandleAlertsRegister), (''alerts.disable'', HandleAlertsDisable)]"

definition protectedMethods :: "string list" where
  "protectedMethods =
     [''orders.place'', ''orders.cancel'', ''orders.status'',
      ''history.query'', ''history.latest'',
      ''market.subscribe'', ''market.unsubscribe'', ''market.list'',
      ''metrics.get'', ''alerts.subscribe'', ''alerts.list'', ''alerts.register'',
      ''alerts.disable'']"

text \<open>The authentication middleware: \<open>True\<close> when it calls \<open>next()\<close>. (Its
  \<open>catch\<close> branch, which also calls \<open>next()\<close>, needs \<open>getField\<close> to raise, which
  the session store of the spec does not do.)\<close>

definition authMiddleware :: "SessionStore \<Rightarrow> string \<Rightarrow> bool" where
  "authMiddleware sm sid =
     (case getField_string sm sid ''authenticated'' of
        None \<Rightarrow> False
      | Some authenticated \<Rightarrow> authenticated = ''true'')"

text \<open>
  Modelled from the spec: the dispatcher (binaryrpc's \<open>App\<close>) is not in the repository.
  Spec 4.5: the middleware chain runs in registration order before the handler; a
  middleware that returns without calling \<open>next\<close> halts the dispatch, no handler runs and
  no frame is sent. The first middleware (logging) always calls \<open>next\<close>; the second is
  the authentication middleware, attached to \<open>protectedMethods\<close> only. \<open>run h\<close> are the
  reply frames the handler \<open>h\<close> sends for the request at hand.
\<close>

datatype Dispatch = NoHandler | Halted | Invoked Handler

definition dispatch :: "SessionStore \<Rightarrow> string \<Rightarrow> string \<Rightarrow> Dispatch" where
  "dispatch sm sid method =
     (if method \<in> set protectedMethods \<and> \<not> authMiddleware sm sid then Halted
      else case map_of registeredRPC method of None \<Rightarrow> NoHandler | Some h \<Rightarrow> Invoked h)"

definition dispatchFrames :: "(Handler \<Rightarrow> Reply list) \<Rightarrow> SessionStore \<Rightarrow> string \<Rightarrow> string \<Rightarrow> Reply list" where
  "dispatchFrames run sm sid method =
     (case dispatch sm sid method of Invoked h \<Rightarrow> run h | Halted \<Rightarrow> [] | NoHandler \<Rightarrow> [])"

text \<open>The protected set as the specification describes it: \<open>orders.*\<close>, \<open>history.*\<close>,
  \<open>market.*\<close>, \<open>metrics.get\<close>, \<open>alerts.*\<close>.\<close>

definition specProtected :: "string \<Rightarrow> bool" where
  "specProtected method =
     (prefix ''orders.'' method \<or> prefix ''history.'' method \<or> prefix ''market.'' method
      \<or> method = ''metrics.get'' \<or> prefix ''alerts.'' method)"

section \<open>hello, market.subscribe and the resumed session\<close>

text \<open>\<open>std::string::find(p) != npos\<close>.\<close>

fun contains :: "string \<Rightarrow> string \<Rightarrow> bool" where
  "contains [] p = (p = [])"
| "contains (c # cs) p = (prefix p (c # cs) \<or> contains cs p)"

text \<open>The user and roles \<open>handleHello\<close> derives from a non-empty token.\<close>

definition tokenPrincipal :: "string \<Rightarrow> string \<times> string list" where
  "tokenPrincipal token =
     (if contains token ''admin'' then (''admin-user-789'', [''admin'', ''trader'', ''viewer''])
      else if contains token ''trader'' then (''trader-user-123'', [''trader'', ''viewer''])
      else if contains token ''viewer'' then (''viewer-user-456'', [''viewer''])
      else if contains token ''demo'' then (''demo-user-001'', [''viewer''])
      else (''authenticated-user-'' @ take 8 token, [''viewer'']))"

text \<open>\<open>nlohmann::json(roles).dump()\<close> for the role lists above (no character of a role
  needs escaping).\<close>

fun joinWith :: "string \<Rightarrow> string list \<Rightarrow> string" where
  "joinWith sep [] = []"
| "joinWith sep [x] = x"
| "joinWith sep (x # y # ys) = x @ sep @ joinWith sep (y # ys)"

definition dumpStrings :: "string list \<Rightarrow> string" where
  "dumpStrings xs =
     ''['' @ joinWith '','' (map (\<lambda>x. [CHR 0x22] @ x @ [CHR 0x22]) xs) @ '']''"

text \<open>The session token of the identity as \<open>handleHello\<close> prints it: two lower-case
  hexadecimal digits per byte.\<close>

definition hexDigit :: "nat \<Rightarrow> char" where
  "hexDigit d = (if d < 10 then char_of (48 + d) else char_of (87 + d))"

definition hexByte :: "8 word \<Rightarrow> string" where
  "hexByte b = [hexDigit (unat b div 16), hexDigit (unat b mod 16)]"

text \<open>What \<open>handleHello\<close> reads from the session object: its id's identity token and
  its expiry.\<close>

record SessionInfo =
  identityToken :: "8 word list"
  expiryMs :: int

definition helloFields :: "json \<Rightarrow> exn + (string \<times> string \<times> string)" where
  "helloFields request =
     try_bind (value_string request ''token'' []) (\<lambda>token.
     try_bind (value_string request ''clientId'' []) (\<lambda>cid.
     try_bind (value_string request ''deviceId'' []) (\<lambda>did.
       Inr (token, cid, did))))"

text \<open>\<open>AdvancedTradingServer::handleHello\<close>, on the parsed payload, which is printed to
  the log before its fields are read. Every \<open>setField\<close> call passes \<open>false\<close> as its
  last argument; the fields are written before the response is printed. (The second test
  of \<open>token.empty()\<close>, with its \<open>AUTH_FAILED\<close> reply, cannot be reached.)\<close>

definition helloCatch :: "Env \<Rightarrow> exn \<Rightarrow> Reply" where
  "helloCatch env e =
     serialized ''hello''
       (createErrorResponse ''INTERNAL_ERROR'' (''Authentication failed: '' @ what env e))"

definition handleHello ::
  "Env \<Rightarrow> SessionInfo \<Rightarrow> SessionStore \<Rightarrow> string \<Rightarrow> json \<Rightarrow> SessionStore \<times> Reply" where
  "handleHello env info sm sid request =
     (case try_bind (dump request) (\<lambda>printed. helloFields request) of
        Inl e \<Rightarrow> (sm, helloCatch env e)
      | Inr (token, cid, did) \<Rightarrow>
          if token = [] \<or> cid = [] then
            (sm, serialized ''hello''
                   (createErrorResponse ''INVALID_PARAMS''
                      ''Missing required parameters: token, clientId''))
          else
            (let (userId, roles) = tokenPrincipal token;
                 sm1 = setField sm sid ''userId'' (StringField userId) False;
                 sm2 = setField sm1 sid ''clientId'' (StringField cid) False;
                 sm3 = setField sm2 sid ''deviceId'' (StringField did) False;
                 sm4 = setField sm3 sid ''roles'' (StringField (dumpStrings roles)) False;
                 sm5 = setField sm4 sid ''authenticated'' (StringField ''true'') False;
                 response =
                   JObject [(''sessionId'', JString sid),
                            (''userId'', JString userId),
                            (''roles'', JArray (map JString roles)),
                            (''token'', JString (concat (map hexByte (identityToken info)))),
                            (''sessionExpiryMs'', JInt (expiryMs info)),
                            (''message'', JString ''Welcome to Advanced Bull Trading Server!''),
                            (''features'',
                               JObject [(''qos'', JString ''AtLeastOnce for orders''),
                                        (''rooms'', JString ''Market data subscriptions''),
                                        (''middleware'', JString ''Authentication & rate limiting''),
                                        (''reliable'', JString ''Session state management'')])]
             in case dump response of
                  Inl e \<Rightarrow> (sm5, helloCatch env e)
                | Inr printed \<Rightarrow> (sm5, serialized ''hello'' printed)))"

text \<open>
  Modelled from the spec: the room registry (binaryrpc's \<open>RoomPlugin\<close>) is not in the
  repository. Spec 4.6: \<open>join(room, sessionId)\<close>, \<open>leave(room, sessionId)\<close>; a room is
  its member set.
\<close>

type_synonym RoomRegistry = "string \<Rightarrow> string set"

definition join :: "RoomRegistry \<Rightarrow> string \<Rightarrow> string \<Rightarrow> RoomRegistry" where
  "join rooms room sid = rooms(room := insert sid (rooms room))"

definition leave :: "RoomRegistry \<Rightarrow> string \<Rightarrow> string \<Rightarrow> RoomRegistry" where
  "leave rooms room sid = rooms(room := rooms room - {sid})"

definition getMarketDataRoom :: "string \<Rightarrow> string" where
  "getMarketDataRoom smb = ''market:'' @ smb"

definition knownSymbols :: "string list" where
  "knownSymbols =
     [''BTC-USD'', ''ETH-USD'', ''ADA-USD'', ''SOL-USD'', ''DOGE-USD'', ''AVAX-USD'',
      ''MATIC-USD'', ''LINK-USD'']"

text \<open>\<open>payload.value("symbols", json::array())\<close> and the elements a range-for visits in
  the returned value (a primitive value is visited once, null not at all), and
  \<open>empty()\<close> of that value.\<close>

definition symbolsOf :: "json \<Rightarrow> exn + json" where
  "symbolsOf payload =
     (case find_key payload ''symbols'' of
        Inl e \<Rightarrow> Inl e
      | Inr None \<Rightarrow> Inr (JArray [])
      | Inr (Some v) \<Rightarrow> Inr v)"

fun elements :: "json \<Rightarrow> json list" where
  "elements (JArray xs) = xs"
| "elements (JObject kvs) = map snd kvs"
| "elements JNull = []"
| "elements v = [v]"

definition stringElements :: "json \<Rightarrow> string list" where
  "stringElements v = concat (map (\<lambda>x. case x of JString s \<Rightarrow> [s] | _ \<Rightarrow> []) (elements v))"

text \<open>\<open>AdvancedTradingServer::handleMarketDataSubscribe\<close>, on the parsed payload. The
  payload is printed to the log inside a \<open>try\<close> of its own, whose \<open>catch\<close> replaces
  it by a subscription to ETH-USD; the requested symbols are printed next.
  \<open>getSessionData(context, "subscribedRooms")\<close> yields nothing, so the handler leaves
  the rooms of the eight known symbols, joins the requested ones and stores them under
  \<open>subscribedRooms\<close>, again with \<open>false\<close> as the last argument of \<open>setField\<close>, before
  it prints the response.\<close>

definition subscribeCatch :: "Env \<Rightarrow> exn \<Rightarrow> Reply" where
  "subscribeCatch env e =
     raw (createErrorResponse ''INTERNAL_ERROR'' (''Subscription failed: '' @ what env e))"

definition handleMarketDataSubscribe ::
  "Env \<Rightarrow> SessionStore \<Rightarrow> RoomRegistry \<Rightarrow> string \<Rightarrow> json
     \<Rightarrow> SessionStore \<times> RoomRegistry \<times> Reply" where
  "handleMarketDataSubscribe env sm rooms sid parsed =
     (let payload = (case dump parsed of
                       Inl e \<Rightarrow> JObject [(''symbols'', JArray [JString ''ETH-USD''])]
                     | Inr printed \<Rightarrow> parsed)
      in case try_bind (symbolsOf payload) (\<lambda>symbols.
              try_bind (dump symbols) (\<lambda>printed. Inr symbols)) of
        Inl e \<Rightarrow> (sm, rooms, subscribeCatch env e)
      | Inr symbols \<Rightarrow>
          if elements symbols = [] then
            (sm, rooms, raw (createErrorResponse ''INVALID_PARAMS'' ''Symbols list is required''))
          else
            (let existingRooms = map getMarketDataRoom knownSymbols;
                 rooms1 = foldl (\<lambda>r room. leave r room sid) rooms existingRooms;
                 subscribedRooms = map getMarketDataRoom (stringElements symbols);
                 rooms2 = foldl (\<lambda>r room. join r room sid) rooms1 subscribedRooms;
                 sm1 = setField sm sid ''subscribedRooms'' (StringListField subscribedRooms) False;
                 response =
                   JObject [(''subscribed'', symbols),
                            (''rooms'', JArray (map JString subscribedRooms)),
                            (''leftRooms'', JArray (map JString existingRooms)),
                            (''message'', JString
                               ''Successfully subscribed to market data - cleaned up existing rooms and joined new ones''),
                            (''features'',
                               JObject [(''roomManagement'', JString ''true''),
                                        (''realTimeBroadcast'', JString ''true''),
                                        (''sessionState'', JString ''persisted''),
                                        (''cleanupExisting'', JString ''true'')])]
             in case dump response of
                  Inl e \<Rightarrow> (sm1, rooms2, subscribeCatch env e)
                | Inr printed \<Rightarrow>
                    (sm1, rooms2, serialized ''market.subscribe_response'' printed)))"

section \<open>Handshake: TradingHandshakeInspector\<close>

text \<open>What \<open>extract\<close> reads from the upgrade request: \<open>req.getQuery()\<close> and
  \<open>req.getHeader("x-device-id")\<close>.\<close>

record HttpRequest =
  getQuery :: string
  deviceHeader :: string

record ClientIdentity =
  clientId :: string
  deviceId :: int
  sessionToken :: "8 word list"

text \<open>Library functions the inspector calls: the value that
  \<open>iss >> std::hex >> value\<close> reads from the two characters after a percent sign,
  \<open>std::hash<std::string>\<close>, and OpenSSL's SHA-256.\<close>

record HandshakeLib =
  hexValue :: "string \<Rightarrow> int"
  hashString :: "string \<Rightarrow> nat"
  SHA256 :: "8 word list \<Rightarrow> 8 word list"

text \<open>\<open>urlDecode\<close>: a percent sign followed by at least two characters
  (\<open>i + 2 < str.length()\<close>) is replaced by the character of the value read from them.\<close>

fun urlDecode :: "HandshakeLib \<Rightarrow> string \<Rightarrow> string" where
  "urlDecode lib [] = []"
| "urlDecode lib (c # rest) =
     (if c = CHR ''%'' \<and> 2 \<le> length rest
      then char_of (hexValue lib (take 2 rest)) # urlDecode lib (drop 2 rest)
      else c # urlDecode lib rest)"

text \<open>The four variables the query loop fills.\<close>

record QueryParams =
  userIdParam :: string
  deviceIdParam :: string
  tokenParam :: string
  sessionTokenParam :: string

text \<open>The pieces between the ampersands, in order (the \<open>while\<close> loop takes all but the
  last, the code after it takes the last), and the split of one piece at its first
  equals sign.\<close>

fun splitOn :: "char \<Rightarrow> string \<Rightarrow> string list" where
  "splitOn c [] = [[]]"
| "splitOn c (x # xs) =
     (if x = c then [] # splitOn c xs
      else (case splitOn c xs of seg # segs \<Rightarrow> (x # seg) # segs | [] \<Rightarrow> [[x]]))"

definition splitPair :: "string \<Rightarrow> (string \<times> string) option" where
  "splitPair pair =
     (if CHR ''='' \<in> set pair
      then Some (takeWhile (\<lambda>c. c \<noteq> CHR ''='') pair, tl (dropWhile (\<lambda>c. c \<noteq> CHR ''='') pair))
      else None)"

definition assignParam :: "QueryParams \<Rightarrow> string \<Rightarrow> string \<Rightarrow> QueryParams" where
  "assignParam ps key v =
     (if key = ''clientId'' then ps\<lparr>userIdParam := v\<rparr>
      else if key = ''deviceId'' then ps\<lparr>deviceIdParam := v\<rparr>
      else if key = ''token'' then ps\<lparr>tokenParam := v\<rparr>
      else if key = ''sessionToken'' then ps\<lparr>sessionTokenParam := v\<rparr>
      else ps)"

definition parseQuery :: "HandshakeLib \<Rightarrow> string \<Rightarrow> QueryParams" where
  "parseQuery lib query =
     (let none = \<lparr>userIdParam = [], deviceIdParam = [], tokenParam = [], sessionTokenParam = []\<rparr>
      in if query = [] then none
         else foldl (\<lambda>ps pair. case splitPair pair of
                                   None \<Rightarrow> ps
                                 | Some (key, v) \<Rightarrow> assignParam ps (urlDecode lib key) (urlDecode lib v))
                none (splitOn CHR ''&'' query))"

definition verifyJwtToken :: "string \<Rightarrow> string" where
  "verifyJwtToken token =
     (if token = [] then []
      else if contains token ''trader'' then ''trader-user-123''
      else if contains token ''viewer'' then ''viewer-user-456''
      else if contains token ''admin'' then ''admin-user-789''
      else if contains token ''demo'' then ''demo-user-001''
      else ''authenticated-user-'' @ take 8 token)"

text \<open>\<open>generateSessionToken\<close>: the first 16 bytes of the SHA-256 of
  \<open>userId:deviceId:now_ms:jwtSecret\<close>, in a zero-initialised array of 16 bytes.\<close>

definition generateSessionToken :: "HandshakeLib \<Rightarrow> string \<Rightarrow> int \<Rightarrow> string \<Rightarrow> string \<Rightarrow> 8 word list" where
  "generateSessionToken lib jwtSecret now_ms userId deviceIdStr =
     take 16 (SHA256 lib (map of_char
                (userId @ '':'' @ deviceIdStr @ '':'' @ to_string now_ms @ '':'' @ jwtSecret))
              @ replicate 16 0)"

text \<open>The conversion of a provided token: \<open>substr(i, 2)\<close> for \<open>i = 0, 2, 4, ...\<close>,
  each through \<open>std::stoi(byteString, nullptr, 16)\<close> and a cast to \<open>char\<close>; the first
  16 bytes fill the zero-initialised array.\<close>

fun byteStrings :: "string \<Rightarrow> string list" where
  "byteStrings [] = []"
| "byteStrings [a] = [[a]]"
| "byteStrings (a # b # rest) = [a, b] # byteStrings rest"

definition parseHexToken :: "string \<Rightarrow> exn + 8 word list" where
  "parseHexToken hexToken =
     (case collect (map (stoi 16) (byteStrings hexToken)) of
        Inl e \<Rightarrow> Inl e
      | Inr vs \<Rightarrow> Inr (take 16 (map word_of_int vs @ replicate 16 0)))"

text \<open>\<open>extract\<close> after the query loop. \<open>None\<close> is \<open>std::nullopt\<close>: the connection
  is rejected. An exception of the token conversion reaches the outer \<open>catch\<close>, which
  returns \<open>std::nullopt\<close>.\<close>

definition identityFor ::
  "HandshakeLib \<Rightarrow> string \<Rightarrow> int \<Rightarrow> QueryParams \<Rightarrow> string \<Rightarrow> ClientIdentity option" where
  "identityFor lib jwtSecret now_ms ps header =
     (let verified = (if tokenParam ps \<noteq> [] then verifyJwtToken (tokenParam ps) else []);
          userId = (if verified \<noteq> [] then verified else userIdParam ps);
          deviceId0 = (if userId = [] \<and> header \<noteq> [] then header else deviceIdParam ps)
      in if userId = [] then None
         else
           (let deviceId1 = (if deviceId0 = [] then ''trading-device-'' @ userId else deviceId0);
                deviceIdInt = (case stoi 10 deviceId1 of
                                 Inr v \<Rightarrow> v
                               | Inl e \<Rightarrow> int (hashString lib deviceId1 mod 1000000));
                tok = sessionTokenParam ps
            in if tok = [] \<or> length tok \<noteq> 32 then
                 Some \<lparr>clientId = userId, deviceId = deviceIdInt,
                       sessionToken = generateSessionToken lib jwtSecret now_ms userId deviceId1\<rparr>
               else (case parseHexToken tok of
                       Inl e \<Rightarrow> None
                     | Inr bytes \<Rightarrow>
                         Some \<lparr>clientId = userId, deviceId = deviceIdInt, sessionToken = bytes\<rparr>)))"

text \<open>\<open>TradingHandshakeInspector::extract\<close>; \<open>now_ms\<close> is the reading of
  \<open>system_clock\<close> that \<open>generateSessionToken\<close> takes.\<close>

definition "extract" :: "HandshakeLib \<Rightarrow> string \<Rightarrow> int \<Rightarrow> HttpRequest \<Rightarrow> ClientIdentity option" where
  "extract lib jwtSecret now_ms req =
     identityFor lib jwtSecret now_ms (parseQuery lib (getQuery req)) (deviceHeader req)"

section \<open>QoS1 retransmission\<close>













section \<open>Decimal printing and parsing agree\<close>

lemma of_char_digit_char: "d < 10 \<Longrightarrow> (of_char (digit_char d) :: nat) = 48 + d"
  by (simp add: digit_char_def)

lemma digit_value_digit_char: "d < 10 \<Longrightarrow> digit_value 10 (digit_char d) = Some d"
  by (simp add: digit_value_def of_char_digit_char Let_def)

lemma is_digit_digit_char: "d < 10 \<Longrightarrow> is_digit 10 (digit_char d)"
  by (simp add: is_digit_def digit_value_digit_char)

lemma not_isspace_digit_char: "d < 10 \<Longrightarrow> \<not> isspace (digit_char d)"
  by (simp add: isspace_def of_char_digit_char Let_def)

lemma digit_char_not_sign: "d < 10 \<Longrightarrow> digit_char d \<noteq> CHR ''-'' \<and> digit_char d \<noteq> CHR ''+''"
proof -
  assume d: "d < 10"
  have "(of_char (digit_char d) :: nat) \<noteq> of_char CHR ''-''"
    "(of_char (digit_char d) :: nat) \<noteq> of_char CHR ''+''"
    using d by (simp_all add: of_char_digit_char)
  then show ?thesis by auto
qed

lemma to_digits_all_digits: "\<forall>c \<in> set (to_digits n). is_digit 10 c"
proof (induction n rule: to_digits.induct)
  case (1 n)
  show ?case
  proof (cases "n < 10")
    case True
    then show ?thesis by (subst to_digits.simps) (simp add: is_digit_digit_char)
  next
    case False
    then show ?thesis using 1 by (subst to_digits.simps) (simp add: is_digit_digit_char)
  qed
qed

lemma to_digits_hd: "\<exists>d r. d < 10 \<and> to_digits n = digit_char d # r"
proof (induction n rule: to_digits.induct)
  case (1 n)
  show ?case
  proof (cases "n < 10")
    case True
    then show ?thesis by (subst to_digits.simps) auto
  next
    case False
    with 1 obtain d r where "d < 10" "to_digits (n div 10) = digit_char d # r" by blast
    with False show ?thesis by (subst to_digits.simps) auto
  qed
qed

lemma digits_to_nat_snoc:
  "digits_to_nat b (ds @ [c]) = digits_to_nat b ds * b + (case digit_value b c of Some d \<Rightarrow> d | None \<Rightarrow> 0)"
  by (simp add: digits_to_nat_def)

lemma digits_to_nat_to_digits: "digits_to_nat 10 (to_digits n) = n"
proof (induction n rule: to_digits.induct)
  case (1 n)
  show ?case
  proof (cases "n < 10")
    case True
    then show ?thesis
      by (subst to_digits.simps) (simp add: digits_to_nat_def digit_value_digit_char)
  next
    case False
    with 1 have "digits_to_nat 10 (to_digits (n div 10)) = n div 10" by simp
    with False show ?thesis
      by (subst to_digits.simps) (simp add: digits_to_nat_snoc digit_value_digit_char)
  qed
qed

lemma strtol_plain:
  assumes "s = c # r" "\<not> isspace c" "c \<noteq> CHR ''-''" "c \<noteq> CHR ''+''"
    and "\<forall>x \<in> set s. is_digit 10 x"
  shows "strtol 10 s = Some (int (digits_to_nat 10 s))"
proof -
  have tw: "takeWhile (is_digit 10) s = s"
    using assms(5) by (simp add: takeWhile_eq_all_conv)
  have dw: "dropWhile isspace s = s"
    using assms(1,2) by simp
  show ?thesis
    unfolding strtol_def dw
    using assms(1,3,4) tw by (simp add: Let_def)
qed

lemma strtol_to_digits: "strtol 10 (to_digits n) = Some (int n)"
proof -
  obtain d r where d: "d < 10" and eq: "to_digits n = digit_char d # r"
    using to_digits_hd by blast
  show ?thesis
    using strtol_plain[OF eq not_isspace_digit_char[OF d]] digit_char_not_sign[OF d]
      to_digits_all_digits[of n]
    by (simp add: digits_to_nat_to_digits)
qed

lemma strtol_minus:
  assumes "s = c # r" "\<not> isspace c" "c \<noteq> CHR ''-''" "c \<noteq> CHR ''+''"
    and "\<forall>x \<in> set s. is_digit 10 x"
  shows "strtol 10 (CHR ''-'' # s) = Some (- int (digits_to_nat 10 s))"
proof -
  have tw: "takeWhile (is_digit 10) s = s"
    using assms(5) by (simp add: takeWhile_eq_all_conv)
  have sp: "\<not> isspace CHR ''-''" by (simp add: isspace_def)
  show ?thesis
    unfolding strtol_def
    using assms(1) tw sp by (simp add: Let_def)
qed

lemma strtol_to_string: "strtol 10 (to_string i) = Some i"
proof (cases "i < 0")
  case True
  obtain d r where d: "d < 10" and eq: "to_digits (nat (- i)) = digit_char d # r"
    using to_digits_hd by blast
  have "strtol 10 (CHR ''-'' # to_digits (nat (- i))) = Some (- int (nat (- i)))"
    using strtol_minus[OF eq not_isspace_digit_char[OF d]] digit_char_not_sign[OF d]
      to_digits_all_digits[of "nat (- i)"]
    by (simp add: digits_to_nat_to_digits)
  with True show ?thesis by (simp add: to_string_def)
next
  case False
  then show ?thesis by (simp add: to_string_def strtol_to_digits)
qed

lemma stoll_to_string: "- (2 ^ 63) \<le> i \<Longrightarrow> i < 2 ^ 63 \<Longrightarrow> stoll (to_string i) = Inr i"
  by (simp add: stoll_def strtol_to_string)

section \<open>Text that \<open>dump()\<close> prints\<close>

lemma utf8_Nil [simp]: "utf8 []"
  by (simp add: utf8_def)

text \<open>Two-, three- and four-byte characters are accepted; a byte that starts no
  character, an overlong form, a surrogate, a code point above U+10FFFF and a string that
  ends inside a character are not.\<close>

lemma utf8_examples:
  "utf8 [CHR 0xC3, CHR 0xA9]" "utf8 [CHR 0xE2, CHR 0x82, CHR 0xAC]"
  "utf8 [CHR 0xF0, CHR 0x9F, CHR 0x98, CHR 0x80]"
  "\<not> utf8 [CHR 0xFF]" "\<not> utf8 [CHR 0xC0, CHR 0x80]" "\<not> utf8 [CHR 0xED, CHR 0xA0, CHR 0x80]"
  "\<not> utf8 [CHR 0xF4, CHR 0x90, CHR 0x80, CHR 0x80]" "\<not> utf8 [CHR 0xC3]"
  by (simp_all add: utf8_def)

lemma utf8_ascii_Cons: "(of_char c :: nat) < 128 \<Longrightarrow> utf8 (c # s) = utf8 s"
  by (simp add: utf8_def)

lemma utf8_ascii: "\<forall>c \<in> set s. (of_char c :: nat) < 128 \<Longrightarrow> utf8 s"
  by (induction s) (simp_all add: utf8_ascii_Cons)

lemma is_digit_ascii: "is_digit 10 c \<Longrightarrow> (of_char c :: nat) < 128"
  by (auto simp: is_digit_def digit_value_def Let_def split: if_splits)

lemma utf8_to_digits: "utf8 (to_digits n)"
  using to_digits_all_digits[of n] by (auto intro!: utf8_ascii is_digit_ascii)

lemma utf8_to_string: "utf8 (to_string i)"
  by (simp add: to_string_def utf8_ascii_Cons utf8_to_digits)

lemma printable_JObject:
  "printable (JObject kvs) = (\<forall>kv \<in> set kvs. utf8 (fst kv) \<and> printable (snd kv))"
  by (auto simp: list_all_iff)

lemma dump_Inr: "dump j = Inr p \<Longrightarrow> p = j \<and> printable j"
  by (simp add: dump_def split: if_splits)

lemma value_string_utf8:
  assumes "printable request" and "value_string request k d = Inr s" and "utf8 d"
  shows "utf8 s"
proof (cases request)
  case (JObject kvs)
  show ?thesis
  proof (cases "map_of kvs k")
    case None
    with assms JObject show ?thesis by (simp add: value_with_def)
  next
    case (Some v)
    with assms(2) JObject have g: "get_string v = Inr s" by (simp add: value_with_def)
    then have v: "v = JString s" by (cases v) simp_all
    from Some have m: "(k, v) \<in> set kvs" by (rule map_of_SomeD)
    from assms(1) JObject have "\<forall>kv \<in> set kvs. utf8 (fst kv) \<and> printable (snd kv)"
      by (simp only: printable_JObject)
    with m have "printable v" by auto
    with v show ?thesis by simp
  qed
qed (use assms(2) in \<open>simp_all add: value_with_def\<close>)

section \<open>history.query: the parameter check\<close>

lemma sdiv_1000_zero: "(x::int) sdiv 1000 = 0 \<longleftrightarrow> \<bar>x\<bar> < 1000"
  by (auto simp: signed_divide_int_def sgn_if div_eq_0_iff)

lemma errorCode_create [simp]: "errorCode (createErrorResponse c m) = Some c"
  by (simp add: errorCode_def createErrorResponse_def)

text \<open>
  Claim C9, as the code has it. For a \<open>history.query\<close> request whose fields can be read
  (no \<open>type_error\<close>), the reply is \<open>{error: {code: INVALID_PARAMS}}\<close> exactly when the
  symbol is empty or one of the millisecond timestamps lies strictly between \<open>-1000\<close>
  and \<open>1000\<close>, that is, when it is zero after the conversion to seconds (a missing or
  non-numeric timestamp counts as \<open>0\<close>). Otherwise, with a repository configured,
  \<open>HistoryRepository.fetch\<close> receives the timestamps divided by 1000.
\<close>

theorem history_query_invalid_params:
  assumes "historyQueryFields request = Inr (smb, fromTsMs, toTsMs, ivl, lmt)"
  shows "(errorCode (body (reply (handleHistoryQuery w repo request))) = Some ''INVALID_PARAMS''
            \<longleftrightarrow> smb = [] \<or> \<bar>fromTsMs\<bar> < 1000 \<or> \<bar>toTsMs\<bar> < 1000)
       \<and> (smb \<noteq> [] \<and> 1000 \<le> \<bar>fromTsMs\<bar> \<and> 1000 \<le> \<bar>toTsMs\<bar> \<and> repo = Some fetch \<longrightarrow>
            fetchCall (handleHistoryQuery w repo request)
              = Some (smb, \<lparr>fromTs = fromTsMs sdiv 1000, toTs = toTsMs sdiv 1000,
                                interval = intervalEnum ivl, limit = lmt\<rparr>))"
  using assms
  by (auto simp: handleHistoryQuery_def historyQueryChecked_def Let_def sdiv_1000_zero
      historyQueryReply_def historyQueryCatch_def dump_def
      serialized_def raw_def errorCode_def createErrorResponse_def
      split: option.splits sum.splits)

text \<open>
  Witness for C9: a one-hour query on BTC-USD against a repository that returns no candle.
\<close>

theorem history_query_invalid_params_witness:
  "historyQueryFields
      (JObject [(''symbol'', JString ''BTC-USD''), (''fromTs'', JInt 1700000000000),
                (''toTs'', JInt 1700003600000), (''interval'', JString ''H1''),
                (''limit'', JInt 100)])
     = Inr (''BTC-USD'', 1700000000000, 1700003600000, ''H1'', 100)
   \<and> errorCode (body (reply (handleHistoryQuery (\<lambda>e. []) (Some (\<lambda>s q. Inr []))
        (JObject [(''symbol'', JString ''BTC-USD''), (''fromTs'', JInt 1700000000000),
                  (''toTs'', JInt 1700003600000), (''interval'', JString ''H1''),
                  (''limit'', JInt 100)]))))
       \<noteq> Some ''INVALID_PARAMS''
   \<and> fetchCall (handleHistoryQuery (\<lambda>e. []) (Some (\<lambda>s q. Inr []))
        (JObject [(''symbol'', JString ''BTC-USD''), (''fromTs'', JInt 1700000000000),
                  (''toTs'', JInt 1700003600000), (''interval'', JString ''H1''),
                  (''limit'', JInt 100)]))
       = Some (''BTC-USD'', \<lparr>fromTs = 1700000000, toTs = 1700003600, interval = H1,
                               limit = 100\<rparr>)"
proof -
  let ?req = "JObject [(''symbol'', JString ''BTC-USD''), (''fromTs'', JInt 1700000000000),
                (''toTs'', JInt 1700003600000), (''interval'', JString ''H1''),
                (''limit'', JInt 100)]"
  have h: "historyQueryFields ?req
             = Inr (''BTC-USD'', 1700000000000, 1700003600000, ''H1'', 100)"
    by (simp add: historyQueryFields_def try_bind_def value_with_def timestampMs_def
        signed_take_bit_eq_take_bit_minus take_bit_eq_mod bit_iff_odd)
  show ?thesis
    using h history_query_invalid_params [OF h, of "\<lambda>e. []" "Some (\<lambda>s q. Inr [])" "\<lambda>s q. Inr []"]
    by (simp add: intervalEnum_def signed_divide_int_def)
qed

text \<open>
  Claim C9 as stated fails: a request with a non-empty symbol and the non-zero timestamps
  \<open>fromTs = 500\<close>, \<open>toTs = 2000\<close> is rejected with \<open>INVALID_PARAMS\<close>, because the
  check is made on the timestamps after their division by 1000.
\<close>

theorem history_query_nonzero_rejected:
  "errorCode (body (reply (handleHistoryQuery (\<lambda>e. []) None
       (JObject [(''symbol'', JString ''BTC-USD''), (''fromTs'', JInt 500),
                 (''toTs'', JInt 2000)]))))
     = Some ''INVALID_PARAMS''
   \<and> ''BTC-USD'' \<noteq> [] \<and> (500::int) \<noteq> 0 \<and> (2000::int) \<noteq> 0"
  by (simp add: handleHistoryQuery_def historyQueryFields_def try_bind_def value_with_def
      timestampMs_def historyQueryChecked_def signed_divide_int_def raw_def)

section \<open>orders.place: rate limit, outcome and idempotent replay\<close>

lemma getField_string_setField:
  "getField_string (setField sm sid key v p) sid' key' =
     (if sid' = sid \<and> key' = key then (case v of StringField s \<Rightarrow> Some s | _ \<Rightarrow> None)
      else getField_string sm sid' key')"
  by (simp add: getField_string_def setField_def)

lemma lastOrderTime_stampSession:
  "getField_string (stampSession sm sid clk) sid ''lastOrderTime'' = Some (to_string (tRate clk))"
  by (simp add: stampSession_def Let_def getField_string_setField)

lemma errorCode_orderResponse [simp]: "errorCode (orderResponse res qos sid f) = None"
  by (simp add: errorCode_def orderResponse_def)

lemma body_serialized [simp]: "body (serialized m j) = j"
  by (simp add: serialized_def)

lemma placeFields_utf8:
  assumes "printable request" and "placeFields request = Inr f"
  shows "utf8 (idempotencyKey f)" and "utf8 (symbol f)" and "utf8 (side f)" and "utf8 (type f)"
proof -
  from assms(2) obtain q pr where
    k: "value_string request ''idempotencyKey'' ''DEFAULT_KEY'' = Inr (idempotencyKey f)"
    and sy: "value_string request ''symbol'' ''BTC-USD'' = Inr (symbol f)"
    and sd: "value_string request ''side'' ''BUY'' = Inr (side f)"
    and ty: "value_string request ''type'' ''LIMIT'' = Inr (type f)"
    by (auto simp: placeFields_def try_bind_def split: sum.splits)
  show "utf8 (idempotencyKey f)"
    by (rule value_string_utf8[OF assms(1) k]) (simp add: utf8_def)
  show "utf8 (symbol f)"
    by (rule value_string_utf8[OF assms(1) sy]) (simp add: utf8_def)
  show "utf8 (side f)"
    by (rule value_string_utf8[OF assms(1) sd]) (simp add: utf8_def)
  show "utf8 (type f)"
    by (rule value_string_utf8[OF assms(1) ty]) (simp add: utf8_def)
qed

lemma printable_orderResponse:
  "printable (orderResponse res qos sid f) \<longleftrightarrow>
     utf8 (orderId res) \<and> utf8 (echoKey res) \<and> utf8 (reason res) \<and> utf8 qos \<and> utf8 sid
     \<and> utf8 (symbol f) \<and> utf8 (side f) \<and> utf8 (type f) \<and> utf8 (idempotencyKey f)"
  by (simp add: orderResponse_def utf8_ascii_Cons)

lemma sendOrderResponse_state [simp]:
  "sessionManager (fst (sendOrderResponse env j st)) = sessionManager st"
  "idempotencyCache (fst (sendOrderResponse env j st)) = idempotencyCache st"
  "riskValidator (fst (sendOrderResponse env j st)) = riskValidator st"
  "validateCalls (fst (sendOrderResponse env j st)) = validateCalls st"
  "cacheGets (fst (sendOrderResponse env j st)) = cacheGets st"
  by (simp_all add: sendOrderResponse_def ordersPlaceCatch_def split: sum.splits)

lemma sendOrderResponse_code:
  "errorCode (body (snd (sendOrderResponse env (orderResponse res qos sid f) st)))
     \<noteq> Some ''RATE_LIMIT_EXCEEDED''"
  by (auto simp: sendOrderResponse_def ordersPlaceCatch_def split: sum.splits dest!: dump_Inr)

lemma newOrder_code:
  "errorCode (body (snd (newOrder env rv clk sid f st))) \<noteq> Some ''RATE_LIMIT_EXCEEDED''"
  by (simp add: newOrder_def Let_def sendOrderResponse_code split: prod.splits)

lemma placeOrder_code:
  assumes "placeOrder env rv clk sid f st = (st', r)"
  shows "errorCode (body r) \<noteq> Some ''RATE_LIMIT_EXCEEDED''"
proof -
  have "errorCode (body (snd (placeOrder env rv clk sid f st))) \<noteq> Some ''RATE_LIMIT_EXCEEDED''"
    by (auto simp: placeOrder_def Let_def newOrder_code split: prod.splits option.splits sum.splits
        dest!: dump_Inr)
  with assms show ?thesis by simp
qed

lemma newOrder_lastOrderTime:
  assumes "newOrder env rv clk sid f st = (st', r)"
  shows "getField_string (sessionManager st') sid ''lastOrderTime''
           = getField_string (sessionManager st) sid ''lastOrderTime''"
proof -
  have "getField_string (sessionManager (fst (newOrder env rv clk sid f st))) sid ''lastOrderTime''
          = getField_string (sessionManager st) sid ''lastOrderTime''"
    by (simp add: newOrder_def Let_def getField_string_setField split: prod.splits)
  with assms show ?thesis by simp
qed

lemma placeOrder_lastOrderTime:
  "placeOrder env rv clk sid f st = (st', r) \<Longrightarrow>
   getField_string (sessionManager st') sid ''lastOrderTime''
     = getField_string (sessionManager st) sid ''lastOrderTime''"
  by (auto simp: placeOrder_def Let_def split: prod.splits option.splits sum.splits
      dest!: newOrder_lastOrderTime)

lemma accepted_iff:
  "handleOrdersPlace env rv clk sid request st = (st', r) \<Longrightarrow>
   (errorCode (body r) = Some ''RATE_LIMIT_EXCEEDED'') = rateLimited (sessionManager st) sid (tRate clk)"
  by (auto simp: handleOrdersPlace_def Let_def ordersPlaceCatch_def split: if_splits sum.splits
      dest!: placeOrder_code)

lemma accepted_lastOrderTime:
  assumes "handleOrdersPlace env rv clk sid request st = (st', r)"
    and "\<not> rateLimited (sessionManager st) sid (tRate clk)"
  shows "getField_string (sessionManager st') sid ''lastOrderTime'' = Some (to_string (tRate clk))"
  using assms
  by (auto simp: handleOrdersPlace_def Let_def lastOrderTime_stampSession ordersPlaceCatch_def
      split: sum.splits dest!: placeOrder_lastOrderTime)


text \<open>
  Claim C3. When an \<open>orders.place\<close> request on a session was accepted (its reply is not
  the rate-limit error) at the clock reading \<open>tRate clk1\<close>, a second request on the same
  session whose reading is less than 1000 ms later is answered with
  \<open>{error: {code: RATE_LIMIT_EXCEEDED}}\<close> whatever its payload, and leaves the whole server
  state as it was: no call to the validator, no lookup in the idempotency cache. The second
  request may find any state \<open>st2\<close> in which the session still holds the
  \<open>lastOrderTime\<close> that the first request wrote (in particular the state the first
  request left). The clock reading is a 64-bit value.
\<close>

theorem rate_limit_second_order:
  assumes first: "handleOrdersPlace env rv clk1 sid req1 st = (st1, r1)"
    and accepted: "errorCode (body r1) \<noteq> Some ''RATE_LIMIT_EXCEEDED''"
    and int64: "- (2 ^ 63) \<le> tRate clk1" "tRate clk1 < 2 ^ 63"
    and kept: "getField_string (sessionManager st2) sid ''lastOrderTime''
                 = getField_string (sessionManager st1) sid ''lastOrderTime''"
    and soon: "tRate clk2 - tRate clk1 < 1000"
  shows "handleOrdersPlace env rv clk2 sid req2 st2
           = (st2, serialized ''orders.place''
                     (createErrorResponse ''RATE_LIMIT_EXCEEDED'' ''Too many requests''))"
proof -
  have "\<not> rateLimited (sessionManager st) sid (tRate clk1)"
    using accepted_iff[OF first] accepted by simp
  then have "getField_string (sessionManager st1) sid ''lastOrderTime''
               = Some (to_string (tRate clk1))"
    by (rule accepted_lastOrderTime[OF first])
  then have "rateLimited (sessionManager st2) sid (tRate clk2)"
    using int64 soon kept by (simp add: rateLimited_def stoll_to_string)
  then show ?thesis by (simp add: handleOrdersPlace_def)
qed

lemma field_orderResponse:
  "field (serialized m (orderResponse res qos sid f)) ''status'' = Some (JInt (statusCode (status res)))"
  "field (serialized m (orderResponse res qos sid f)) ''orderId'' = Some (JString (orderId res))"
  "field (serialized m (orderResponse res qos sid f)) ''echoKey'' = Some (JString (echoKey res))"
  "field (serialized m (orderResponse res qos sid f)) ''reason'' = Some (JString (reason res))"
  "field (serialized m (orderResponse res qos sid f)) ''qos'' = Some (JString qos)"
  by (simp_all add: field_def orderResponse_def)

lemma newOrder_outcome:
  assumes v: "validate rv (riskValidator st) (Account ''ACC_demo-user'' ''demo-user'' ''USD'' 100000) []
              (Order (''ORD_'' @ to_string (tOrder clk)) (idempotencyKey f)
                 (if type f = ''MARKET'' then MARKET else LIMIT)
                 (if side f = ''BUY'' then BUY else SELL) (qty f) (price f) NEW (tCreated clk))
              = (ok, v')"
    and run: "newOrder env rv clk sid f st = (st', r)"
    and res: "res = \<lparr>status = (if \<not> ok then REJECTED else if type f = ''MARKET'' then FILLED else ACK),
                     orderId = ''ORD_'' @ to_string (tOrder clk), echoKey = idempotencyKey f,
                     reason = (if \<not> ok then getValidationError rv v' else [])\<rparr>"
  shows "idempotencyCache st' = (idempotencyCache st)(idempotencyKey f \<mapsto>
            \<lparr>result = res, expiresAt = tPut clk + 300000\<rparr>)"
    and "validateCalls st' = validateCalls st @
            [Order (''ORD_'' @ to_string (tOrder clk)) (idempotencyKey f)
                 (if type f = ''MARKET'' then MARKET else LIMIT)
                 (if side f = ''BUY'' then BUY else SELL) (qty f) (price f) NEW (tCreated clk)]"
    and "cacheGets st' = cacheGets st"
    and "utf8 sid \<Longrightarrow> utf8 (getValidationError rv v') \<Longrightarrow> utf8 (idempotencyKey f) \<Longrightarrow>
         utf8 (symbol f) \<Longrightarrow> utf8 (side f) \<Longrightarrow> utf8 (type f) \<Longrightarrow>
         r = serialized ''orders.place''
               (orderResponse res
                  (if ok then ''AtLeastOnce - reliable delivery'' else ''AtLeastOnce - risk rejected'')
                  sid f)"
proof -
  have st': "st' = fst (newOrder env rv clk sid f st)" and r: "r = snd (newOrder env rv clk sid f st)"
    using run by simp_all
  show "idempotencyCache st' = (idempotencyCache st)(idempotencyKey f \<mapsto>
            \<lparr>result = res, expiresAt = tPut clk + 300000\<rparr>)"
    unfolding st' res using v
    by (simp add: newOrder_def Let_def getAccountForSession_def getSessionData_def
        getPositionsForAccount_def cache_put_def)
  show "validateCalls st' = validateCalls st @
            [Order (''ORD_'' @ to_string (tOrder clk)) (idempotencyKey f)
                 (if type f = ''MARKET'' then MARKET else LIMIT)
                 (if side f = ''BUY'' then BUY else SELL) (qty f) (price f) NEW (tCreated clk)]"
    unfolding st' using v
    by (simp add: newOrder_def Let_def getAccountForSession_def getSessionData_def
        getPositionsForAccount_def)
  show "cacheGets st' = cacheGets st"
    unfolding st' using v
    by (simp add: newOrder_def Let_def getAccountForSession_def getSessionData_def
        getPositionsForAccount_def)
  assume u: "utf8 sid" "utf8 (getValidationError rv v')" "utf8 (idempotencyKey f)"
    "utf8 (symbol f)" "utf8 (side f)" "utf8 (type f)"
  show "r = serialized ''orders.place''
               (orderResponse res
                  (if ok then ''AtLeastOnce - reliable delivery'' else ''AtLeastOnce - risk rejected'')
                  sid f)"
    unfolding r res using v u
    by (simp add: newOrder_def Let_def getAccountForSession_def getSessionData_def
        getPositionsForAccount_def sendOrderResponse_def dump_def printable_orderResponse
        utf8_to_string utf8_ascii_Cons)
qed

lemma placeOrder_miss:
  assumes "fst (cache_get (tGet clk) (idempotencyCache st) (idempotencyKey f)) = None"
  shows "placeOrder env rv clk sid f st
           = newOrder env rv clk sid f
               (st\<lparr>idempotencyCache := snd (cache_get (tGet clk) (idempotencyCache st) (idempotencyKey f)),
                    cacheGets := cacheGets st @ [idempotencyKey f]\<rparr>)"
  using assms
  by (cases "cache_get (tGet clk) (idempotencyCache st) (idempotencyKey f)")
    (simp add: placeOrder_def Let_def)


lemma handle_accepted:
  assumes "handleOrdersPlace env rv clk sid request st = (st', r)"
    and "errorCode (body r) \<noteq> Some ''RATE_LIMIT_EXCEEDED''"
    and "printable request"
    and "placeFields request = Inr f"
  shows "placeOrder env rv clk sid f
           (st\<lparr>sessionManager := stampSession (sessionManager st) sid clk\<rparr>) = (st', r)"
  using assms accepted_iff[OF assms(1)]
  by (simp add: handleOrdersPlace_def Let_def try_bind_def dump_def)

lemma placeOrder_cases:
  assumes "placeOrder env rv clk sid f st = (st', r)"
  shows "(\<exists>res. fst (cache_get (tGet clk) (idempotencyCache st) (idempotencyKey f)) = Some res
            \<and> r = serialized ''orders.place''
                    (orderResponse res ''AtLeastOnce - cached result'' sid f)
            \<and> validateCalls st' = validateCalls st)
       \<or> newOrder env rv clk sid f
            (st\<lparr>idempotencyCache := snd (cache_get (tGet clk) (idempotencyCache st) (idempotencyKey f)),
                 cacheGets := cacheGets st @ [idempotencyKey f]\<rparr>) = (st', r)"
  using assms
  by (cases "cache_get (tGet clk) (idempotencyCache st) (idempotencyKey f)")
    (auto simp: placeOrder_def Let_def split: option.splits sum.splits dest!: dump_Inr)

text \<open>
  A request whose payload cannot be printed (a string that is not UTF-8) or read (a field
  of another JSON type) never reaches the idempotency cache or the validator: it is
  answered with the rate-limit error or with \<open>INTERNAL_ERROR\<close>.
\<close>

lemma unreadable_not_validated:
  assumes "handleOrdersPlace env rv clk sid request st = (st', r)"
    and "try_bind (dump request) (\<lambda>printed. placeFields request) = Inl e"
  shows "validateCalls st' = validateCalls st" and "cacheGets st' = cacheGets st"
    and "idempotencyCache st' = idempotencyCache st"
    and "errorCode (body r) = Some ''RATE_LIMIT_EXCEEDED''
         \<or> errorCode (body r) = Some ''INTERNAL_ERROR''"
  using assms
  by (auto simp: handleOrdersPlace_def Let_def ordersPlaceCatch_def split: if_splits)

text \<open>
  Claim C8. An \<open>orders.place\<close> request that is not rate-limited and not served from the
  cache, whose payload can be printed and read (one that cannot never reaches the
  validator, \<open>unreadable_not_validated\<close>): the handler calls the validator on the order
  built from the request. When the validator returns false, the outcome stored under the
  request's idempotency key and the reply have status \<open>REJECTED\<close> and the validator's
  error text as reason; when it returns true, both have status \<open>FILLED\<close> for the type
  \<open>"MARKET"\<close> and \<open>ACK\<close> for every other type. The session id and the validator's error
  text are UTF-8 text, as everything is that the reply prints.
\<close>

theorem place_outcome:
  assumes run: "handleOrdersPlace env rv clk sid request st = (st', r)"
    and accepted: "errorCode (body r) \<noteq> Some ''RATE_LIMIT_EXCEEDED''"
    and notCached: "field r ''qos'' \<noteq> Some (JString ''AtLeastOnce - cached result'')"
    and readable: "printable request" "placeFields request = Inr f"
    and v: "validate rv (riskValidator st) (Account ''ACC_demo-user'' ''demo-user'' ''USD'' 100000) []
              (Order (''ORD_'' @ to_string (tOrder clk)) (idempotencyKey f)
                 (if type f = ''MARKET'' then MARKET else LIMIT)
                 (if side f = ''BUY'' then BUY else SELL) (qty f) (price f) NEW (tCreated clk))
              = (ok, v')"
    and texts: "utf8 sid" "utf8 (getValidationError rv v')"
  shows "validateCalls st' = validateCalls st @
            [Order (''ORD_'' @ to_string (tOrder clk)) (idempotencyKey f)
                 (if type f = ''MARKET'' then MARKET else LIMIT)
                 (if side f = ''BUY'' then BUY else SELL) (qty f) (price f) NEW (tCreated clk)]
       \<and> (\<not> ok \<longrightarrow>
            map_option result (idempotencyCache st' (idempotencyKey f))
              = Some \<lparr>status = REJECTED, orderId = ''ORD_'' @ to_string (tOrder clk),
                      echoKey = idempotencyKey f, reason = getValidationError rv v'\<rparr>
          \<and> field r ''status'' = Some (JInt (statusCode REJECTED))
          \<and> field r ''reason'' = Some (JString (getValidationError rv v')))
       \<and> (ok \<longrightarrow>
            map_option (status \<circ> result) (idempotencyCache st' (idempotencyKey f))
              = Some (if type f = ''MARKET'' then FILLED else ACK)
          \<and> field r ''status''
              = Some (JInt (statusCode (if type f = ''MARKET'' then FILLED else ACK))))"
proof -
  let ?st0 = "st\<lparr>sessionManager := stampSession (sessionManager st) sid clk\<rparr>"
  let ?st1 = "?st0\<lparr>idempotencyCache :=
                     snd (cache_get (tGet clk) (idempotencyCache ?st0) (idempotencyKey f)),
                   cacheGets := cacheGets ?st0 @ [idempotencyKey f]\<rparr>"
  have p: "placeOrder env rv clk sid f ?st0 = (st', r)"
    by (rule handle_accepted[OF run accepted readable])
  have n: "newOrder env rv clk sid f ?st1 = (st', r)"
    using placeOrder_cases[OF p] notCached by (auto simp: field_orderResponse)
  have v1: "validate rv (riskValidator ?st1) (Account ''ACC_demo-user'' ''demo-user'' ''USD'' 100000) []
              (Order (''ORD_'' @ to_string (tOrder clk)) (idempotencyKey f)
                 (if type f = ''MARKET'' then MARKET else LIMIT)
                 (if side f = ''BUY'' then BUY else SELL) (qty f) (price f) NEW (tCreated clk))
              = (ok, v')"
    using v by simp
  note u = placeFields_utf8[OF readable]
  note out = newOrder_outcome[OF v1 n refl]
  have reply: "r = serialized ''orders.place''
      (orderResponse
         \<lparr>status = (if \<not> ok then REJECTED else if type f = ''MARKET'' then FILLED else ACK),
           orderId = ''ORD_'' @ to_string (tOrder clk), echoKey = idempotencyKey f,
           reason = (if \<not> ok then getValidationError rv v' else [])\<rparr>
         (if ok then ''AtLeastOnce - reliable delivery'' else ''AtLeastOnce - risk rejected'')
         sid f)"
    by (rule out(4)[OF texts u(1) u(2) u(3) u(4)])
  have calls: "validateCalls st' = validateCalls st @
            [Order (''ORD_'' @ to_string (tOrder clk)) (idempotencyKey f)
                 (if type f = ''MARKET'' then MARKET else LIMIT)
                 (if side f = ''BUY'' then BUY else SELL) (qty f) (price f) NEW (tCreated clk)]"
    using out(2) by simp
  show ?thesis
    using calls by (cases ok) (simp_all add: out(1) reply field_orderResponse)
qed




section \<open>orders.place: concrete runs\<close>

lemma fresh_not_limited: "\<not> rateLimited (sessionManager freshServer) sid t"
  by (simp add: rateLimited_def freshServer_def getField_string_def)

lemma notionalValidator_text:
  "validate notionalValidator v a ps ord = (ok, v') \<Longrightarrow>
   utf8 (getValidationError notionalValidator v')"
  by (auto simp: notionalValidator_def Let_def utf8_ascii_Cons split: Order.splits if_splits)

text \<open>
  Witness for C3: on a fresh server an order placed at 1700000000000 ms is accepted, and
  a second request 200 ms later, with another key, gets the rate-limit error.
\<close>

theorem rate_limit_second_order_witness:
  "errorCode (body (snd (handleOrdersPlace sampleEnv notionalValidator (clockAt 1700000000000) ''s1''
       (JObject [(''idempotencyKey'', JString ''K1''), (''symbol'', JString ''ETH-USD''),
          (''side'', JString ''BUY''), (''type'', JString ''LIMIT''), (''qty'', JFloat 2),
          (''price'', JFloat 1000)]) freshServer))) \<noteq> Some ''RATE_LIMIT_EXCEEDED''
   \<and> snd (handleOrdersPlace sampleEnv notionalValidator (clockAt 1700000000200) ''s1''
       (JObject [(''idempotencyKey'', JString ''K2'')])
       (fst (handleOrdersPlace sampleEnv notionalValidator (clockAt 1700000000000) ''s1''
          (JObject [(''idempotencyKey'', JString ''K1''), (''symbol'', JString ''ETH-USD''),
             (''side'', JString ''BUY''), (''type'', JString ''LIMIT''), (''qty'', JFloat 2),
             (''price'', JFloat 1000)]) freshServer)))
     = serialized ''orders.place''
         (createErrorResponse ''RATE_LIMIT_EXCEEDED'' ''Too many requests'')"
proof -
  let ?req1 = "JObject [(''idempotencyKey'', JString ''K1''), (''symbol'', JString ''ETH-USD''),
          (''side'', JString ''BUY''), (''type'', JString ''LIMIT''), (''qty'', JFloat 2),
          (''price'', JFloat 1000)]"
  let ?run1 = "handleOrdersPlace sampleEnv notionalValidator (clockAt 1700000000000) ''s1'' ?req1 freshServer"
  have first: "?run1 = (fst ?run1, snd ?run1)" by simp
  have acc: "errorCode (body (snd ?run1)) \<noteq> Some ''RATE_LIMIT_EXCEEDED''"
    using accepted_iff[OF first] fresh_not_limited by simp
  have r1: "- (2 ^ 63) \<le> tRate (clockAt 1700000000000)" "tRate (clockAt 1700000000000) < 2 ^ 63"
    by (simp_all add: clockAt_def)
  have soon: "tRate (clockAt 1700000000200) - tRate (clockAt 1700000000000) < 1000"
    by (simp add: clockAt_def)
  show ?thesis
    using acc rate_limit_second_order[OF first acc r1 refl soon, of "JObject [(''idempotencyKey'', JString ''K2'')]"]
    by simp
qed


lemma orderId_sample: "to_string 1700000000000 = ''1700000000000''"
  by (simp add: to_string_def to_digits.simps digit_char_def char_of_eq_iff)

lemma fresh_new_order:
  assumes pr: "printable request" and f: "placeFields request = Inr f"
    and v: "validate notionalValidator (riskValidator freshServer)
              (Account ''ACC_demo-user'' ''demo-user'' ''USD'' 100000) []
              (Order (''ORD_'' @ to_string (tOrder clk)) (idempotencyKey f)
                 (if type f = ''MARKET'' then MARKET else LIMIT)
                 (if side f = ''BUY'' then BUY else SELL) (qty f) (price f) NEW (tCreated clk))
              = (ok, v')"
    and sid: "utf8 sid"
  shows "snd (handleOrdersPlace sampleEnv notionalValidator clk sid request freshServer)
           = serialized ''orders.place''
               (orderResponse
                  \<lparr>status = (if \<not> ok then REJECTED else if type f = ''MARKET'' then FILLED else ACK),
                    orderId = ''ORD_'' @ to_string (tOrder clk), echoKey = idempotencyKey f,
                    reason = (if \<not> ok then getValidationError notionalValidator v' else [])\<rparr>
                  (if ok then ''AtLeastOnce - reliable delivery'' else ''AtLeastOnce - risk rejected'')
                  sid f)"
proof -
  let ?run = "handleOrdersPlace sampleEnv notionalValidator clk sid request freshServer"
  let ?st0 = "freshServer\<lparr>sessionManager := stampSession (sessionManager freshServer) sid clk\<rparr>"
  let ?st1 = "?st0\<lparr>idempotencyCache :=
                     snd (cache_get (tGet clk) (idempotencyCache ?st0) (idempotencyKey f)),
                   cacheGets := cacheGets ?st0 @ [idempotencyKey f]\<rparr>"
  have run: "?run = (fst ?run, snd ?run)" by simp
  have acc: "errorCode (body (snd ?run)) \<noteq> Some ''RATE_LIMIT_EXCEEDED''"
    using accepted_iff[OF run] fresh_not_limited by simp
  have p: "placeOrder sampleEnv notionalValidator clk sid f ?st0 = (fst ?run, snd ?run)"
    by (rule handle_accepted[OF run acc pr f])
  have m: "fst (cache_get (tGet clk) (idempotencyCache ?st0) (idempotencyKey f)) = None"
    by (simp add: cache_get_def freshServer_def)
  have n: "newOrder sampleEnv notionalValidator clk sid f ?st1 = (fst ?run, snd ?run)"
    using p unfolding placeOrder_miss[OF m] .
  have v1: "validate notionalValidator (riskValidator ?st1)
              (Account ''ACC_demo-user'' ''demo-user'' ''USD'' 100000) []
              (Order (''ORD_'' @ to_string (tOrder clk)) (idempotencyKey f)
                 (if type f = ''MARKET'' then MARKET else LIMIT)
                 (if side f = ''BUY'' then BUY else SELL) (qty f) (price f) NEW (tCreated clk))
              = (ok, v')"
    using v by simp
  note u = placeFields_utf8[OF pr f]
  show ?thesis
    by (rule newOrder_outcome(4)[OF v1 n refl sid notionalValidator_text[OF v] u(1) u(2) u(3) u(4)])
qed

text \<open>
  A request whose symbol is the single byte \<open>0xFF\<close>: printing it to the log raises, the
  reply is \<open>INTERNAL_ERROR\<close>, and neither the cache nor the validator is reached.
\<close>

lemma non_utf8_request_internal_error:
  "errorCode (body (snd (handleOrdersPlace sampleEnv notionalValidator (clockAt 1700000000000) ''s1''
       (JObject [(''idempotencyKey'', JString ''K1''), (''symbol'', JString [CHR 0xFF])])
       freshServer))) = Some ''INTERNAL_ERROR''
   \<and> validateCalls (fst (handleOrdersPlace sampleEnv notionalValidator (clockAt 1700000000000) ''s1''
       (JObject [(''idempotencyKey'', JString ''K1''), (''symbol'', JString [CHR 0xFF])])
       freshServer)) = []
   \<and> cacheGets (fst (handleOrdersPlace sampleEnv notionalValidator (clockAt 1700000000000) ''s1''
       (JObject [(''idempotencyKey'', JString ''K1''), (''symbol'', JString [CHR 0xFF])])
       freshServer)) = []"
proof -
  let ?req = "JObject [(''idempotencyKey'', JString ''K1''), (''symbol'', JString [CHR 0xFF])]"
  let ?run = "handleOrdersPlace sampleEnv notionalValidator (clockAt 1700000000000) ''s1'' ?req freshServer"
  have bad: "try_bind (dump ?req) (\<lambda>printed. placeFields ?req) = Inl (json_type_error 316)"
    by (simp add: dump_def try_bind_def utf8_def)
  have run: "?run = ordersPlaceCatch sampleEnv (json_type_error 316)
      (freshServer\<lparr>sessionManager := stampSession (sessionManager freshServer) ''s1''
         (clockAt 1700000000000)\<rparr>)"
    using bad fresh_not_limited[of "''s1''" "tRate (clockAt 1700000000000)"]
    by (simp add: handleOrdersPlace_def Let_def)
  show ?thesis
    unfolding run by (simp add: ordersPlaceCatch_def freshServer_def)
qed

text \<open>
  Witness for C8: a MARKET order of notional 2000 is validated and stored and answered as
  \<open>FILLED\<close> (status 3); an order of notional 1000000 is refused by the validator and
  stored and answered as \<open>REJECTED\<close> with the validator's text.
\<close>

theorem place_outcome_witness:
  "map_option (status \<circ> result)
     (idempotencyCache (fst (handleOrdersPlace sampleEnv notionalValidator (clockAt 1700000000000) ''s1''
        (JObject [(''idempotencyKey'', JString ''K1''), (''type'', JString ''MARKET''),
                  (''qty'', JInt 2), (''price'', JInt 1000)]) freshServer)) ''K1'')
     = Some FILLED
   \<and> field (snd (handleOrdersPlace sampleEnv notionalValidator (clockAt 1700000000000) ''s1''
        (JObject [(''idempotencyKey'', JString ''K1''), (''type'', JString ''MARKET''),
                  (''qty'', JInt 2), (''price'', JInt 1000)]) freshServer)) ''status''
     = Some (JInt 3)
   \<and> map_option result
     (idempotencyCache (fst (handleOrdersPlace sampleEnv notionalValidator (clockAt 1700000000000) ''s1''
        (JObject [(''idempotencyKey'', JString ''K2''), (''qty'', JInt 1000),
                  (''price'', JInt 1000)]) freshServer)) ''K2'')
     = Some \<lparr>status = REJECTED, orderId = ''ORD_1700000000000'', echoKey = ''K2'',
             reason = ''Order notional limit exceeded. Max notional: $100000.000000''\<rparr>
   \<and> field (snd (handleOrdersPlace sampleEnv notionalValidator (clockAt 1700000000000) ''s1''
        (JObject [(''idempotencyKey'', JString ''K2''), (''qty'', JInt 1000),
                  (''price'', JInt 1000)]) freshServer)) ''reason''
     = Some (JString ''Order notional limit exceeded. Max notional: $100000.000000'')"
proof -
  let ?reqA = "JObject [(''idempotencyKey'', JString ''K1''), (''type'', JString ''MARKET''),
                  (''qty'', JInt 2), (''price'', JInt 1000)]"
  let ?reqB = "JObject [(''idempotencyKey'', JString ''K2''), (''qty'', JInt 1000),
                  (''price'', JInt 1000)]"
  let ?fA = "\<lparr>idempotencyKey = ''K1'', symbol = ''BTC-USD'', side = ''BUY'', type = ''MARKET'',
              qty = 2, price = 1000\<rparr>"
  let ?fB = "\<lparr>idempotencyKey = ''K2'', symbol = ''BTC-USD'', side = ''BUY'', type = ''LIMIT'',
              qty = 1000, price = 1000\<rparr>"
  let ?runA = "handleOrdersPlace sampleEnv notionalValidator (clockAt 1700000000000) ''s1'' ?reqA freshServer"
  let ?runB = "handleOrdersPlace sampleEnv notionalValidator (clockAt 1700000000000) ''s1'' ?reqB freshServer"
  have runA: "?runA = (fst ?runA, snd ?runA)" and runB: "?runB = (fst ?runB, snd ?runB)"
    by simp_all
  have accA: "errorCode (body (snd ?runA)) \<noteq> Some ''RATE_LIMIT_EXCEEDED''"
    using accepted_iff[OF runA] fresh_not_limited by simp
  have accB: "errorCode (body (snd ?runB)) \<noteq> Some ''RATE_LIMIT_EXCEEDED''"
    using accepted_iff[OF runB] fresh_not_limited by simp
  have prA: "printable ?reqA" and prB: "printable ?reqB"
    by (simp_all add: utf8_ascii_Cons)
  have fA: "placeFields ?reqA = Inr ?fA" and fB: "placeFields ?reqB = Inr ?fB"
    by (simp_all add: placeFields_def try_bind_def value_with_def)
  have vA: "validate notionalValidator (riskValidator freshServer)
              (Account ''ACC_demo-user'' ''demo-user'' ''USD'' 100000) []
              (Order (''ORD_'' @ to_string (tOrder (clockAt 1700000000000))) (idempotencyKey ?fA)
                 (if type ?fA = ''MARKET'' then MARKET else LIMIT)
                 (if side ?fA = ''BUY'' then BUY else SELL) (qty ?fA) (price ?fA) NEW
                 (tCreated (clockAt 1700000000000))) = (True, [])"
    by (simp add: notionalValidator_def)
  have vB: "validate notionalValidator (riskValidator freshServer)
              (Account ''ACC_demo-user'' ''demo-user'' ''USD'' 100000) []
              (Order (''ORD_'' @ to_string (tOrder (clockAt 1700000000000))) (idempotencyKey ?fB)
                 (if type ?fB = ''MARKET'' then MARKET else LIMIT)
                 (if side ?fB = ''BUY'' then BUY else SELL) (qty ?fB) (price ?fB) NEW
                 (tCreated (clockAt 1700000000000)))
               = (False, ''Order notional limit exceeded. Max notional: $100000.000000'')"
    by (simp add: notionalValidator_def)
  have sid: "utf8 ''s1''" by (simp add: utf8_ascii_Cons)
  have ncA: "field (snd ?runA) ''qos'' \<noteq> Some (JString ''AtLeastOnce - cached result'')"
    unfolding fresh_new_order[OF prA fA vA sid] by (simp add: field_orderResponse)
  have ncB: "field (snd ?runB) ''qos'' \<noteq> Some (JString ''AtLeastOnce - cached result'')"
    unfolding fresh_new_order[OF prB fB vB sid] by (simp add: field_orderResponse)
  have ge: "\<And>x. getValidationError notionalValidator x = x"
    by (simp add: notionalValidator_def)
  have tA: "utf8 (getValidationError notionalValidator [])"
    by (simp add: ge)
  have tB: "utf8 (getValidationError notionalValidator
                   ''Order notional limit exceeded. Max notional: $100000.000000'')"
    by (simp add: ge utf8_ascii_Cons)
  have tO: "tOrder (clockAt 1700000000000) = 1700000000000"
    by (simp add: clockAt_def)
  have A: "map_option (status \<circ> result) (idempotencyCache (fst ?runA) ''K1'') = Some FILLED
           \<and> field (snd ?runA) ''status'' = Some (JInt 3)"
    using place_outcome[OF runA accA ncA prA fA vA sid tA] by (simp add: statusCode_def)
  have B: "map_option result (idempotencyCache (fst ?runB) ''K2'')
             = Some \<lparr>status = REJECTED, orderId = ''ORD_1700000000000'', echoKey = ''K2'',
                     reason = ''Order notional limit exceeded. Max notional: $100000.000000''\<rparr>
           \<and> field (snd ?runB) ''reason''
             = Some (JString ''Order notional limit exceeded. Max notional: $100000.000000'')"
    using place_outcome[OF runB accB ncB prB fB vB sid tB] by (simp add: ge tO orderId_sample)
  show ?thesis
    by (intro conjI) (rule A [THEN conjunct1] A [THEN conjunct2] B [THEN conjunct1] B [THEN conjunct2])+
qed




section \<open>orders.status, and orders.place on an undecodable payload\<close>

lemma placeOrder_ok_session:
  assumes miss: "fst (cache_get (tGet clk) (idempotencyCache st) (idempotencyKey f)) = None"
    and v: "validate rv (riskValidator st) (Account ''ACC_demo-user'' ''demo-user'' ''USD'' 100000) []
              (Order (''ORD_'' @ to_string (tOrder clk)) (idempotencyKey f)
                 (if type f = ''MARKET'' then MARKET else LIMIT)
                 (if side f = ''BUY'' then BUY else SELL) (qty f) (price f) NEW (tCreated clk))
              = (True, v')"
    and run: "placeOrder env rv clk sid f st = (st', r)"
  shows "getField_string (sessionManager st') sid ''lastOrderId'' = Some (''ORD_'' @ to_string (tOrder clk))"
    and "getField_string (sessionManager st') sid ''lastOrderStatus''
           = Some (to_string (statusCode (if type f = ''MARKET'' then FILLED else ACK)))"
proof -
  have st': "st' = fst (placeOrder env rv clk sid f st)"
    using run by simp
  show "getField_string (sessionManager st') sid ''lastOrderId'' = Some (''ORD_'' @ to_string (tOrder clk))"
    unfolding st' placeOrder_miss[OF miss] using v
    by (simp add: newOrder_def Let_def getAccountForSession_def getSessionData_def
        getPositionsForAccount_def getField_string_setField)
  show "getField_string (sessionManager st') sid ''lastOrderStatus''
           = Some (to_string (statusCode (if type f = ''MARKET'' then FILLED else ACK)))"
    unfolding st' placeOrder_miss[OF miss] using v
    by (simp add: newOrder_def Let_def getAccountForSession_def getSessionData_def
        getPositionsForAccount_def getField_string_setField)
qed

text \<open>
  Claim C6 at a concrete run (the claim does not hold on the code). On a fresh server an
  order placed on session \<open>s1\<close> is acknowledged and \<open>handleOrdersPlace\<close> writes
  \<open>lastOrderId = "ORD_1700000000000"\<close> and \<open>lastOrderStatus = "1"\<close> into the session;
  \<open>orders.status\<close> on that session still answers \<open>"none"\<close> for both, because
  \<open>getSessionData\<close> never reads the session store for these keys.
\<close>

theorem orders_status_after_place:
  "getField_string (sessionManager (fst (handleOrdersPlace sampleEnv notionalValidator
       (clockAt 1700000000000) ''s1''
       (JObject [(''idempotencyKey'', JString ''K1''), (''qty'', JInt 2), (''price'', JInt 1000)])
       freshServer))) ''s1'' ''lastOrderId'' = Some ''ORD_1700000000000''
   \<and> getField_string (sessionManager (fst (handleOrdersPlace sampleEnv notionalValidator
       (clockAt 1700000000000) ''s1''
       (JObject [(''idempotencyKey'', JString ''K1''), (''qty'', JInt 2), (''price'', JInt 1000)])
       freshServer))) ''s1'' ''lastOrderStatus'' = Some ''1''
   \<and> handleOrdersStatus (sessionManager (fst (handleOrdersPlace sampleEnv notionalValidator
       (clockAt 1700000000000) ''s1''
       (JObject [(''idempotencyKey'', JString ''K1''), (''qty'', JInt 2), (''price'', JInt 1000)])
       freshServer))) ''s1''
     = serialized ''orders.status''
         (JObject [(''lastOrderId'', JString ''none''), (''lastOrderStatus'', JString ''none''),
                   (''message'', JString ''Order status retrieved from session state'')])"
proof -
  let ?req = "JObject [(''idempotencyKey'', JString ''K1''), (''qty'', JInt 2), (''price'', JInt 1000)]"
  let ?f = "\<lparr>idempotencyKey = ''K1'', symbol = ''BTC-USD'', side = ''BUY'', type = ''LIMIT'',
              qty = 2, price = 1000\<rparr>"
  let ?run = "handleOrdersPlace sampleEnv notionalValidator (clockAt 1700000000000) ''s1'' ?req freshServer"
  let ?st0 = "freshServer\<lparr>sessionManager := stampSession (sessionManager freshServer) ''s1'' (clockAt 1700000000000)\<rparr>"
  have run: "?run = (fst ?run, snd ?run)" by simp
  have acc: "errorCode (body (snd ?run)) \<noteq> Some ''RATE_LIMIT_EXCEEDED''"
    using accepted_iff[OF run] fresh_not_limited by simp
  have pr: "printable ?req"
    by (simp add: utf8_ascii_Cons)
  have f: "placeFields ?req = Inr ?f"
    by (simp add: placeFields_def try_bind_def value_with_def)
  have p: "placeOrder sampleEnv notionalValidator (clockAt 1700000000000) ''s1'' ?f ?st0 = (fst ?run, snd ?run)"
    by (rule handle_accepted[OF run acc pr f])
  have miss: "fst (cache_get (tGet (clockAt 1700000000000)) (idempotencyCache ?st0) (idempotencyKey ?f)) = None"
    by (simp add: cache_get_def freshServer_def)
  have v: "validate notionalValidator (riskValidator ?st0)
              (Account ''ACC_demo-user'' ''demo-user'' ''USD'' 100000) []
              (Order (''ORD_'' @ to_string (tOrder (clockAt 1700000000000))) (idempotencyKey ?f)
                 (if type ?f = ''MARKET'' then MARKET else LIMIT)
                 (if side ?f = ''BUY'' then BUY else SELL) (qty ?f) (price ?f) NEW
                 (tCreated (clockAt 1700000000000))) = (True, [])"
    by (simp add: notionalValidator_def)
  have tO: "tOrder (clockAt 1700000000000) = 1700000000000"
    by (simp add: clockAt_def)
  have sc: "to_string (statusCode ACK) = ''1''"
    by (simp add: statusCode_def to_string_def to_digits.simps digit_char_def char_of_eq_iff)
  have a: "getField_string (sessionManager (fst ?run)) ''s1'' ''lastOrderId'' = Some ''ORD_1700000000000''"
    using placeOrder_ok_session(1)[OF miss v p] by (simp add: tO orderId_sample)
  have b: "getField_string (sessionManager (fst ?run)) ''s1'' ''lastOrderStatus'' = Some ''1''"
    using placeOrder_ok_session(2)[OF miss v p] by (simp add: sc)
  have c: "handleOrdersStatus (sessionManager (fst ?run)) ''s1''
     = serialized ''orders.status''
         (JObject [(''lastOrderId'', JString ''none''), (''lastOrderStatus'', JString ''none''),
                   (''message'', JString ''Order status retrieved from session state'')])"
    by (simp add: handleOrdersStatus_def getSessionData_def)
  show ?thesis
    by (intro conjI) (rule a b c)+
qed

lemma placeFields_empty:
  "placeFields (JObject []) = Inr \<lparr>idempotencyKey = ''DEFAULT_KEY'', symbol = ''BTC-USD'',
      side = ''BUY'', type = ''LIMIT'', qty = 1, price = 50000\<rparr>"
  by (simp add: placeFields_def try_bind_def value_with_def)

text \<open>
  Claim C10. \<open>parseMsgPackPayload\<close> returns a JSON value for every byte vector: when the
  decoding fails (\<open>msgpack::unpack\<close> or the conversion raises), the value is the empty
  object. An \<open>orders.place\<close> request with such a payload is therefore read as the order
  with every field at its default, and, unless the session is rate-limited, is processed
  like any other order with these fields.
\<close>

theorem invalid_msgpack_default_order:
  assumes "parseMsgPackPayload_try unpack req = Inl e"
  shows "parseMsgPackPayload unpack req = JObject []
       \<and> placeFields (parseMsgPackPayload unpack req)
           = Inr \<lparr>idempotencyKey = ''DEFAULT_KEY'', symbol = ''BTC-USD'', side = ''BUY'',
                   type = ''LIMIT'', qty = 1, price = 50000\<rparr>
       \<and> (\<not> rateLimited (sessionManager st) sid (tRate clk) \<longrightarrow>
            handleOrdersPlace env rv clk sid (parseMsgPackPayload unpack req) st
              = placeOrder env rv clk sid
                  \<lparr>idempotencyKey = ''DEFAULT_KEY'', symbol = ''BTC-USD'', side = ''BUY'',
                    type = ''LIMIT'', qty = 1, price = 50000\<rparr>
                  (st\<lparr>sessionManager := stampSession (sessionManager st) sid clk\<rparr>))"
proof -
  have p: "parseMsgPackPayload unpack req = JObject []"
    using assms by (simp add: parseMsgPackPayload_def)
  show ?thesis
    unfolding p by (simp add: placeFields_empty handleOrdersPlace_def Let_def try_bind_def dump_def)
qed

lemma field_orderResponse_request:
  "field (serialized m (orderResponse res qos sid f)) ''idempotencyKey''
     = Some (JString (idempotencyKey f))"
  "field (serialized m (orderResponse res qos sid f)) ''symbol'' = Some (JString (symbol f))"
  "field (serialized m (orderResponse res qos sid f)) ''price'' = Some (JFloat (price f))"
  "field (serialized m (orderResponse res qos sid f)) ''quantity'' = Some (JFloat (qty f))"
  by (simp_all add: field_def orderResponse_def)

text \<open>
  Witness for C10: the byte \<open>0xc1\<close>, which no MsgPack value starts with, on a decoder that
  raises for it; and a map with an integer key, on which the conversion raises. The order
  placed with the first payload is acknowledged under the key \<open>DEFAULT_KEY\<close> for BTC-USD
  at the price 50000.
\<close>

theorem invalid_msgpack_default_order_witness:
  "parseMsgPackPayload (\<lambda>bs. Inl msgpack_unpack_error) [0xc1] = JObject []
   \<and> parseMsgPackPayload (\<lambda>bs. Inr (T_MAP [(T_POSITIVE_INTEGER 1, T_NIL)])) [0x81, 0x01, 0xc0]
       = JObject []
   \<and> map (field (snd (handleOrdersPlace sampleEnv notionalValidator (clockAt 1700000000000) ''s1''
          (parseMsgPackPayload (\<lambda>bs. Inl msgpack_unpack_error) [0xc1]) freshServer)))
        [''status'', ''idempotencyKey'', ''symbol'', ''price'', ''quantity'']
       = [Some (JInt 1), Some (JString ''DEFAULT_KEY''), Some (JString ''BTC-USD''),
          Some (JFloat 50000), Some (JFloat 1)]"
proof -
  let ?unpack = "\<lambda>bs :: 8 word list. (Inl msgpack_unpack_error :: exn + msgpack_object)"
  let ?unpack2 = "\<lambda>bs :: 8 word list. (Inr (T_MAP [(T_POSITIVE_INTEGER 1, T_NIL)]) :: exn + msgpack_object)"
  let ?f = "\<lparr>idempotencyKey = ''DEFAULT_KEY'', symbol = ''BTC-USD'', side = ''BUY'',
             type = ''LIMIT'', qty = 1, price = 50000\<rparr>"
  have t1: "parseMsgPackPayload_try ?unpack [0xc1] = Inl msgpack_unpack_error"
    by (simp add: parseMsgPackPayload_try_def)
  have t2: "parseMsgPackPayload_try ?unpack2 [0x81, 0x01, 0xc0] = Inl msgpack_type_error"
    by (simp add: parseMsgPackPayload_try_def convert_entry_def)
  note w1 = invalid_msgpack_default_order[OF t1, of freshServer "''s1''" "clockAt 1700000000000"
      sampleEnv notionalValidator]
  note w2 = invalid_msgpack_default_order[OF t2, of freshServer "''s1''" "clockAt 1700000000000"
      sampleEnv notionalValidator]
  have v: "validate notionalValidator (riskValidator freshServer)
              (Account ''ACC_demo-user'' ''demo-user'' ''USD'' 100000) []
              (Order (''ORD_'' @ to_string (tOrder (clockAt 1700000000000))) (idempotencyKey ?f)
                 (if type ?f = ''MARKET'' then MARKET else LIMIT)
                 (if side ?f = ''BUY'' then BUY else SELL) (qty ?f) (price ?f) NEW
                 (tCreated (clockAt 1700000000000))) = (True, [])"
    by (simp add: notionalValidator_def)
  have pr: "printable (JObject [])" by simp
  have sid: "utf8 ''s1''" by (simp add: utf8_ascii_Cons)
  have r: "map (field (snd (handleOrdersPlace sampleEnv notionalValidator (clockAt 1700000000000)
                 ''s1'' (JObject []) freshServer)))
             [''status'', ''idempotencyKey'', ''symbol'', ''price'', ''quantity'']
       = [Some (JInt 1), Some (JString ''DEFAULT_KEY''), Some (JString ''BTC-USD''),
          Some (JFloat 50000), Some (JFloat 1)]"
    unfolding fresh_new_order[OF pr placeFields_empty v sid]
    by (simp add: field_orderResponse field_orderResponse_request statusCode_def)
  show ?thesis
    using w1 w2 r by simp
qed

section \<open>The authentication gate\<close>

lemma auth_gate_listed:
  assumes "method \<in> set protectedMethods" and "dispatch sm sid method = Invoked h"
  shows "getField_string sm sid ''authenticated'' = Some ''true''"
  using assms
  by (auto simp: dispatch_def authMiddleware_def split: option.splits if_splits)

lemma halted_no_frames:
  assumes "method \<in> set protectedMethods"
    and "getField_string sm sid ''authenticated'' \<noteq> Some ''true''"
  shows "dispatch sm sid method = Halted" and "dispatchFrames run sm sid method = []"
  using assms
  by (auto simp: dispatchFrames_def dispatch_def authMiddleware_def split: option.splits)

lemma unlisted_protected:
  "filter (\<lambda>m. specProtected m \<and> m \<notin> set protectedMethods) (map fst registeredRPC)
     = [''orders.history'']"
  by (simp add: registeredRPC_def protectedMethods_def specProtected_def)

text \<open>
  Claim C2 at a concrete request (the claim does not hold on the code for every method of
  the set it names). \<open>orders.history\<close> is one of \<open>orders.*\<close> and has a registered
  handler, but it is missing from the list given to \<open>useForMulti\<close>: on a session without
  the field \<open>authenticated\<close> the dispatch reaches \<open>handleOrdersHistory\<close>. For the
  thirteen listed methods the gate holds (\<open>auth_gate_listed\<close>, \<open>halted_no_frames\<close>),
  and \<open>orders.history\<close> is the only registered method of the named set that is left out
  (\<open>unlisted_protected\<close>).
\<close>

theorem orders_history_not_gated:
  "specProtected ''orders.history''
   \<and> getField_string (\<lambda>sid. Map.empty) ''s1'' ''authenticated'' = None
   \<and> dispatch (\<lambda>sid. Map.empty) ''s1'' ''orders.history'' = Invoked HandleOrdersHistory"
  by (simp add: specProtected_def getField_string_def dispatch_def protectedMethods_def
      registeredRPC_def)

section \<open>Session fields across a resume\<close>

lemma setField_apply:
  "setField sm sid key v p sid' key' =
     (if sid' = sid \<and> key' = key then Some \<lparr>fieldValue = v, persistAcrossReconnect = p\<rparr>
      else sm sid' key')"
  by (simp add: setField_def)

lemma resume_apply:
  "resume sm sid sid key =
     (case sm sid key of
        Some f \<Rightarrow> if persistAcrossReconnect f then Some f else None
      | None \<Rightarrow> None)"
  by (simp add: resume_def resumeFields_def)




lemma hello_fields_flag:
  assumes "handleHello env info sm sid request = (sm', r)"
    and "errorCode (body r) = None"
    and "key \<in> {''userId'', ''roles'', ''authenticated'', ''clientId'', ''deviceId''}"
  shows "\<exists>v. sm' sid key = Some \<lparr>fieldValue = v, persistAcrossReconnect = False\<rparr>"
  using assms
  by (auto simp: handleHello_def helloCatch_def Let_def setField_apply
      split: sum.splits prod.splits if_splits)

lemma subscribe_fields_flag:
  assumes "handleMarketDataSubscribe env sm rooms sid payload = (sm', rooms', r)"
    and "errorCode (body r) = None"
  shows "\<exists>v. sm' sid ''subscribedRooms'' = Some \<lparr>fieldValue = v, persistAcrossReconnect = False\<rparr>"
  using assms
  by (auto simp: handleMarketDataSubscribe_def subscribeCatch_def Let_def setField_apply raw_def
      split: sum.splits prod.splits if_splits)





lemma qos_sendOrderResponse:
  "field (snd (sendOrderResponse env (orderResponse res qos sid f) st)) ''qos'' = Some (JString q)
     \<Longrightarrow> q = qos"
  by (simp add: sendOrderResponse_def dump_def ordersPlaceCatch_def field_def serialized_def
      createErrorResponse_def orderResponse_def split: if_splits)

lemma newOrder_reliable_flag:
  assumes "newOrder env rv clk sid f st = (st', r)"
    and "field r ''qos'' = Some (JString ''AtLeastOnce - reliable delivery'')"
    and "key \<in> {''lastOrderId'', ''lastOrderStatus''}"
  shows "\<exists>v. sessionManager st' sid key = Some \<lparr>fieldValue = v, persistAcrossReconnect = False\<rparr>"
proof -
  obtain ok v' where v: "validate rv (riskValidator st)
      (getAccountForSession (sessionManager st) sid)
      (getPositionsForAccount (getAccountForSession (sessionManager st) sid))
      (Order (''ORD_'' @ to_string (tOrder clk)) (idempotencyKey f)
         (if type f = ''MARKET'' then MARKET else LIMIT)
         (if side f = ''BUY'' then BUY else SELL) (qty f) (price f) NEW (tCreated clk)) = (ok, v')"
    by (cases "validate rv (riskValidator st)
      (getAccountForSession (sessionManager st) sid)
      (getPositionsForAccount (getAccountForSession (sessionManager st) sid))
      (Order (''ORD_'' @ to_string (tOrder clk)) (idempotencyKey f)
         (if type f = ''MARKET'' then MARKET else LIMIT)
         (if side f = ''BUY'' then BUY else SELL) (qty f) (price f) NEW (tCreated clk))")
  have st': "st' = fst (newOrder env rv clk sid f st)" and r: "r = snd (newOrder env rv clk sid f st)"
    using assms(1) by simp_all
  have ok: ok
  proof (rule ccontr)
    assume n: "\<not> ok"
    have "r = snd (sendOrderResponse env
                (orderResponse \<lparr>status = REJECTED, orderId = ''ORD_'' @ to_string (tOrder clk),
                     echoKey = idempotencyKey f, reason = getValidationError rv v'\<rparr>
                   ''AtLeastOnce - risk rejected'' sid f)
                (st\<lparr>riskValidator := v',
                    validateCalls := validateCalls st @
                      [Order (''ORD_'' @ to_string (tOrder clk)) (idempotencyKey f)
                         (if type f = ''MARKET'' then MARKET else LIMIT)
                         (if side f = ''BUY'' then BUY else SELL) (qty f) (price f) NEW (tCreated clk)],
                    idempotencyCache := cache_put (tPut clk) (idempotencyCache st) (idempotencyKey f)
                      \<lparr>status = REJECTED, orderId = ''ORD_'' @ to_string (tOrder clk),
                        echoKey = idempotencyKey f, reason = getValidationError rv v'\<rparr> 300000\<rparr>))"
      unfolding r using v n by (simp add: newOrder_def Let_def)
    with assms(2) have "''AtLeastOnce - reliable delivery'' = ''AtLeastOnce - risk rejected''"
      by (auto dest!: qos_sendOrderResponse)
    then show False by simp
  qed
  have "sessionManager st' sid key
          = setField (setField (sessionManager st) sid ''lastOrderId''
                        (StringField (''ORD_'' @ to_string (tOrder clk))) False) sid
              ''lastOrderStatus''
              (StringField (to_string (statusCode (if type f = ''MARKET'' then FILLED else ACK))))
              False sid key"
    unfolding st' using v ok by (simp add: newOrder_def Let_def cong: if_cong)
  with assms(3) show ?thesis
    by (auto simp: setField_apply)
qed


lemma place_reliable_flags:
  assumes "handleOrdersPlace env rv clk sid request st = (st', r)"
    and "field r ''qos'' = Some (JString ''AtLeastOnce - reliable delivery'')"
  shows "resume (sessionManager st') sid sid ''lastOrderId'' = None"
    and "resume (sessionManager st') sid sid ''lastOrderStatus'' = None"
proof -
  let ?st0 = "st\<lparr>sessionManager := stampSession (sessionManager st) sid clk\<rparr>"
  from assms obtain f where p: "placeOrder env rv clk sid f ?st0 = (st', r)"
    by (auto simp: handleOrdersPlace_def Let_def ordersPlaceCatch_def field_def serialized_def
        createErrorResponse_def split: sum.splits if_splits)
  from placeOrder_cases[OF p] assms(2)
  obtain st1 where n: "newOrder env rv clk sid f st1 = (st', r)"
    by (auto simp: field_orderResponse)
  show "resume (sessionManager st') sid sid ''lastOrderId'' = None"
    using newOrder_reliable_flag[OF n assms(2), of "''lastOrderId''"]
    by (auto simp: resume_apply)
  show "resume (sessionManager st') sid sid ''lastOrderStatus'' = None"
    using newOrder_reliable_flag[OF n assms(2), of "''lastOrderStatus''"]
    by (auto simp: resume_apply)
qed




section \<open>The session token in the handshake\<close>

lemma query_nonhex:
  "parseQuery lib ''clientId=alice&sessionToken=zzzzzzzzzzzzzzzzzzzzzzzzzzzzzzzz''
     = \<lparr>userIdParam = ''alice'', deviceIdParam = [], tokenParam = [],
        sessionTokenParam = ''zzzzzzzzzzzzzzzzzzzzzzzzzzzzzzzz''\<rparr>"
  by (simp add: parseQuery_def splitPair_def assignParam_def)

lemma stoi_zz: "stoi 16 ''zz'' = Inl std_invalid_argument"
  by (simp add: stoi_def strtol_def isspace_def has_hex_prefix_def is_digit_def digit_value_def)

lemma parse_nonhex: "parseHexToken ''zzzzzzzzzzzzzzzzzzzzzzzzzzzzzzzz'' = Inl std_invalid_argument"
  by (simp add: parseHexToken_def stoi_zz)

text \<open>
  Claim C7 at a concrete request (the claim does not hold on the code). A connection with
  \<open>clientId=alice\<close> and a \<open>sessionToken\<close> of 32 characters that are not hexadecimal
  digits is rejected: the length test passes, \<open>std::stoi\<close> raises on the first pair and
  the outer \<open>catch\<close> returns \<open>std::nullopt\<close>. A token whose length is not 32 is
  replaced by a minted one (\<open>handshake_mints_token\<close>), and the 32 hexadecimal characters
  that \<open>hello\<close> prints for 16 bytes are parsed back into these bytes
  (\<open>handshake_parses_hex_token\<close>).
\<close>

theorem handshake_rejects_nonhex_token:
  "length ''zzzzzzzzzzzzzzzzzzzzzzzzzzzzzzzz'' = 32
   \<and> extract lib jwtSecret now_ms
        \<lparr>getQuery = ''clientId=alice&sessionToken=zzzzzzzzzzzzzzzzzzzzzzzzzzzzzzzz'',
         deviceHeader = []\<rparr> = None"
  by (simp add: extract_def query_nonhex identityFor_def Let_def parse_nonhex)

lemma handshake_mints_token:
  assumes "userIdParam ps \<noteq> []" "tokenParam ps = []"
    and "length (sessionTokenParam ps) \<noteq> 32"
  shows "\<exists>d s. identityFor lib jwtSecret now_ms ps header
           = Some \<lparr>clientId = userIdParam ps, deviceId = d,
                   sessionToken = generateSessionToken lib jwtSecret now_ms (userIdParam ps) s\<rparr>"
  using assms by (auto simp: identityFor_def Let_def)


lemma of_char_hexDigit:
  "d < 16 \<Longrightarrow> (of_char (hexDigit d) :: nat) = (if d < 10 then 48 + d else 87 + d)"
  by (simp add: hexDigit_def)

lemma digit_value_hexDigit: "d < 16 \<Longrightarrow> digit_value 16 (hexDigit d) = Some d"
  by (simp add: digit_value_def of_char_hexDigit Let_def)

lemma hexDigit_plain:
  assumes "d < 16"
  shows "\<not> isspace (hexDigit d)" "hexDigit d \<noteq> CHR ''-''" "hexDigit d \<noteq> CHR ''+''"
proof -
  show "\<not> isspace (hexDigit d)"
    using assms by (simp add: isspace_def of_char_hexDigit Let_def)
  have "(of_char (hexDigit d) :: nat) \<noteq> of_char CHR ''-''"
    "(of_char (hexDigit d) :: nat) \<noteq> of_char CHR ''+''"
    using assms by (simp_all add: of_char_hexDigit)
  then show "hexDigit d \<noteq> CHR ''-''" "hexDigit d \<noteq> CHR ''+''" by auto
qed

lemma stoi_hexByte: "stoi 16 (hexByte b) = Inr (int (unat b))"
proof -
  let ?h = "unat b div 16" and ?l = "unat b mod 16"
  have b: "unat b < 256" using unsigned_less[of b] by simp
  then have h: "?h < 16" and l: "?l < 16" by simp_all
  have dv: "digit_value 16 (hexDigit ?h) = Some ?h" "digit_value 16 (hexDigit ?l) = Some ?l"
    using h l by (simp_all add: digit_value_hexDigit)
  have tw: "takeWhile (is_digit 16) [hexDigit ?h, hexDigit ?l] = [hexDigit ?h, hexDigit ?l]"
    by (simp add: is_digit_def dv)
  have val: "digits_to_nat 16 [hexDigit ?h, hexDigit ?l] = unat b"
    by (simp add: digits_to_nat_def dv)
  have st: "strtol 16 (hexByte b) = Some (int (unat b))"
    unfolding strtol_def hexByte_def
    using hexDigit_plain[OF h] tw val
    by (simp add: Let_def has_hex_prefix_def)
  have "uint b < 256" using uint_lt2p[of b] by simp
  moreover have "0 \<le> uint b" by simp
  ultimately have "- 2147483648 \<le> uint b \<and> uint b < 2147483648" by linarith
  then show ?thesis
    by (simp add: stoi_def st)
qed

lemma byteStrings_hexBytes: "byteStrings (concat (map hexByte bs)) = map hexByte bs"
  by (induction bs) (simp_all add: hexByte_def)

lemma parseHexToken_hexBytes:
  assumes "length bs = 16"
  shows "parseHexToken (concat (map hexByte bs)) = Inr bs"
proof -
  have "collect (map (stoi 16) (map hexByte bs)) = Inr (map (\<lambda>b. int (unat b)) bs)"
    by (induction bs) (simp_all add: stoi_hexByte)
  then have c: "collect (map (stoi 16) (byteStrings (concat (map hexByte bs))))
                  = Inr (map (\<lambda>b. int (unat b)) bs)"
    by (simp add: byteStrings_hexBytes)
  have "map word_of_int (map (\<lambda>b. int (unat b)) bs) = bs"
    by (induction bs) simp_all
  then show ?thesis
    using assms by (simp add: parseHexToken_def c)
qed

lemma handshake_parses_hex_token:
  assumes "userIdParam ps \<noteq> []" "tokenParam ps = []"
    and "length bs = 16" "sessionTokenParam ps = concat (map hexByte bs)"
  shows "\<exists>d. identityFor lib jwtSecret now_ms ps header
           = Some \<lparr>clientId = userIdParam ps, deviceId = d, sessionToken = bs\<rparr>"
proof -
  define tok where "tok = concat (map hexByte bs)"
  have len: "length tok = 32"
    using assms(3) by (simp add: tok_def length_concat hexByte_def comp_def sum_list_triv)
  then have ne: "tok \<noteq> []" by auto
  have p: "parseHexToken tok = Inr bs"
    unfolding tok_def by (rule parseHexToken_hexBytes[OF assms(3)])
  have t: "sessionTokenParam ps = tok"
    using assms(4) by (simp add: tok_def)
  show ?thesis
    using assms(1,2) len ne p
    by (simp add: identityFor_def Let_def t)
qed

section \<open>QoS1: acknowledged in time, or counted as failed\<close>







end
